theory Spec2Isabelle
  imports Complex_Main "HOL-Library.Sublist"
begin

section \<open>The radar viewer script: data\<close>

text \<open>
  The script keeps its whole state in module-level variables. The model collects them in
  one record that every function takes and returns.

  The current frame is a JavaScript number. The script only ever adds or subtracts one,
  adds an array length and takes a remainder, so the values it can hold are integers and
  \<open>NaN\<close> (the remainder by zero). Negative zero is identified with zero: the two index
  the same array element and behave alike under the arithmetic used here.
\<close>

datatype jsnum = Num int | NaN

fun js_add :: "jsnum \<Rightarrow> jsnum \<Rightarrow> jsnum" where
  "js_add (Num a) (Num b) = Num (a + b)"
| "js_add _ _ = NaN"

fun js_sub :: "jsnum \<Rightarrow> jsnum \<Rightarrow> jsnum" where
  "js_sub (Num a) (Num b) = Num (a - b)"
| "js_sub _ _ = NaN"

text \<open>The remainder operator \<open>%\<close>: the sign follows the dividend, a zero divisor gives \<open>NaN\<close>.\<close>

fun js_mod :: "jsnum \<Rightarrow> jsnum \<Rightarrow> jsnum" where
  "js_mod (Num a) (Num b) = (if b = 0 then NaN else Num (sgn a * (\<bar>a\<bar> mod \<bar>b\<bar>)))"
| "js_mod _ _ = NaN"

text \<open>
  A number used as a property key of an array names an element only when it is a
  non-negative integer; \<open>NaN\<close> and negative numbers name properties that the script never
  defines, so reading them gives \<open>undefined\<close>.
\<close>

fun index_of :: "jsnum \<Rightarrow> nat option" where
  "index_of (Num i) = (if 0 \<le> i then Some (nat i) else None)"
| "index_of NaN = None"

record frame =
  path :: string
  time :: int

text \<open>An object made by \<open>L.tileLayer(url, {opacity: o})\<close>.\<close>

record tile_layer =
  url :: string
  opacity :: real

text \<open>
  The layer caches are sparse arrays of layer objects: a hole is \<open>None\<close>, an element is
  the address of the layer in the store \<open>tileLayers\<close>. Writing beyond the end extends the
  array with holes.
\<close>

type_synonym handle = nat

definition arr_get :: "'a option list \<Rightarrow> nat \<Rightarrow> 'a option" where
  "arr_get xs n = (if n < length xs then xs ! n else None)"

definition arr_set :: "'a option list \<Rightarrow> nat \<Rightarrow> 'a \<Rightarrow> 'a option list" where
  "arr_set xs n v =
     (if n < length xs then xs[n := Some v]
      else xs @ replicate (n - length xs) None @ [Some v])"

text \<open>The elements that \<open>forEach\<close> visits and the test \<open>if (layer)\<close> lets through, in order.\<close>

fun cached :: "'a option list \<Rightarrow> 'a list" where
  "cached [] = []"
| "cached (None # xs) = cached xs"
| "cached (Some h # xs) = h # cached xs"

record state =
  map_layers :: "handle set"
  tileLayers :: "tile_layer list"
  radarOverlayLayers :: "handle option list"
  cloudOverlayLayers :: "handle option list"
  currentFrame :: jsnum
  playInterval :: "nat option"
  intervals :: "nat set"
  timerSeq :: nat
  radarFrames :: "frame list"
  satelliteFrames :: "frame list"
  apiHost :: "string option"
  rainOpacity :: real
  cloudOpacity :: real
  optionColorScheme :: nat
  optionSmoothData :: nat
  optionSnowColors :: nat
  optionExtension :: string

text \<open>
  \<open>map_layers\<close> holds the overlay layers that the Leaflet map currently shows. The base
  layer is a separate object that is never stored in a cache; it is left out.
  \<open>intervals\<close> is the set of running interval timers, each of which calls \<open>nextFrame\<close>;
  \<open>timerSeq\<close> is the last timer id handed out (ids are positive).
\<close>

definition init :: state where
  "init = \<lparr> map_layers = {}, tileLayers = [], radarOverlayLayers = [],
            cloudOverlayLayers = [], currentFrame = Num 0, playInterval = None,
            intervals = {}, timerSeq = 0, radarFrames = [], satelliteFrames = [],
            apiHost = Some [], rainOpacity = 1, cloudOpacity = 1,
            optionColorScheme = 2, optionSmoothData = 1, optionSnowColors = 1,
            optionExtension = ''webp'' \<rparr>"

definition radarColorSchemes :: "(string \<times> nat) list" where
  "radarColorSchemes =
     [(''universal_blue'', 2), (''original'', 1), (''titan'', 3), (''weatherchannel'', 4),
      (''meteored'', 5), (''nexrad'', 6), (''rainbow'', 7), (''darksky'', 8), (''raw'', 0)]"

definition mapStyles :: "string list" where
  "mapStyles = [''geographic'', ''streetmap'', ''satellite'', ''cyclosm'', ''tracestrack'']"

section \<open>Tile URLs\<close>

text \<open>Numbers inside a template literal are written in decimal.\<close>

fun show_nat :: "nat \<Rightarrow> string" where
  "show_nat n =
     (if n < 10 then [''0123456789'' ! n]
      else show_nat (n div 10) @ [''0123456789'' ! (n mod 10)])"

declare show_nat.simps [simp del]

text \<open>An undefined host is written as the word \<open>undefined\<close>.\<close>

fun show_host :: "string option \<Rightarrow> string" where
  "show_host None = ''undefined''"
| "show_host (Some h) = h"

definition buildRadarTileUrl :: "state \<Rightarrow> frame \<Rightarrow> string" where
  "buildRadarTileUrl s fr =
     show_host (apiHost s) @ path fr @ ''/'' @ show_nat 256 @ ''/{z}/{x}/{y}/''
       @ show_nat (optionColorScheme s) @ ''/'' @ show_nat (optionSmoothData s)
       @ ''_'' @ show_nat (optionSnowColors s) @ ''.'' @ optionExtension s"

definition buildSatelliteTileUrl :: "state \<Rightarrow> frame \<Rightarrow> string" where
  "buildSatelliteTileUrl s fr =
     show_host (apiHost s) @ path fr @ ''/'' @ show_nat 256 @ ''/{z}/{x}/{y}/0/0_0.''
       @ optionExtension s"

section \<open>Overlays\<close>

text \<open>
  \<open>L.tileLayer\<close> allocates a new object: its address is the next free one. The two
  blocks of \<open>addOverlays\<close>, for the radar and for the satellite overlay, are written as
  two functions of the array index; \<open>map.addLayer\<close> of a layer that is on the map already
  changes nothing.
\<close>

definition addRadarOverlay :: "nat \<Rightarrow> state \<Rightarrow> state" where
  "addRadarOverlay n s =
     (let s1 = (case arr_get (radarOverlayLayers s) n of
                  Some h \<Rightarrow> s
                | None \<Rightarrow>
                    s\<lparr> tileLayers := tileLayers s @
                          [\<lparr> url = buildRadarTileUrl s (radarFrames s ! n),
                             opacity = rainOpacity s \<rparr>],
                       radarOverlayLayers :=
                         arr_set (radarOverlayLayers s) n (length (tileLayers s)) \<rparr>)
      in s1\<lparr> map_layers := map_layers s1 \<union>
                set_option (arr_get (radarOverlayLayers s1) n) \<rparr>)"

definition addCloudOverlay :: "nat \<Rightarrow> state \<Rightarrow> state" where
  "addCloudOverlay n s =
     (let s1 = (case arr_get (cloudOverlayLayers s) n of
                  Some h \<Rightarrow> s
                | None \<Rightarrow>
                    s\<lparr> tileLayers := tileLayers s @
                          [\<lparr> url = buildSatelliteTileUrl s (satelliteFrames s ! n),
                             opacity = cloudOpacity s \<rparr>],
                       cloudOverlayLayers :=
                         arr_set (cloudOverlayLayers s) n (length (tileLayers s)) \<rparr>)
      in s1\<lparr> map_layers := map_layers s1 \<union>
                set_option (arr_get (cloudOverlayLayers s1) n) \<rparr>)"

definition addOverlays :: "jsnum \<Rightarrow> state \<Rightarrow> state" where
  "addOverlays frameIndex s =
     (case index_of frameIndex of
        None \<Rightarrow> s
      | Some n \<Rightarrow>
          if \<not> n < length (radarFrames s) then s
          else if \<not> n < length (satelliteFrames s) then s
          else addCloudOverlay n (addRadarOverlay n s))"

definition removeOverlays :: "jsnum \<Rightarrow> state \<Rightarrow> state" where
  "removeOverlays frameIndex s =
     (case index_of frameIndex of
        None \<Rightarrow> s
      | Some n \<Rightarrow>
          let s1 = (case arr_get (radarOverlayLayers s) n of
                      Some h \<Rightarrow>
                        if h \<in> map_layers s then s\<lparr> map_layers := map_layers s - {h} \<rparr> else s
                    | None \<Rightarrow> s)
          in (case arr_get (cloudOverlayLayers s1) n of
                Some h \<Rightarrow>
                  if h \<in> map_layers s1 then s1\<lparr> map_layers := map_layers s1 - {h} \<rparr> else s1
              | None \<Rightarrow> s1))"

section \<open>Frames\<close>

definition showFrame :: "jsnum \<Rightarrow> state \<Rightarrow> state" where
  "showFrame index s =
     (let s1 = removeOverlays (currentFrame s) s;
          s2 = s1\<lparr> currentFrame := index \<rparr>
      in addOverlays (currentFrame s2) s2)"

definition frame_max :: "state \<Rightarrow> nat" where
  "frame_max s = min (length (radarFrames s)) (length (satelliteFrames s))"

definition nextFrame :: "state \<Rightarrow> state" where
  "nextFrame s =
     (let max = Num (int (frame_max s))
      in showFrame (js_mod (js_add (currentFrame s) (Num 1)) max) s)"

definition prevFrame :: "state \<Rightarrow> state" where
  "prevFrame s =
     (let max = Num (int (frame_max s))
      in showFrame (js_mod (js_add (js_sub (currentFrame s) (Num 1)) max) max) s)"

definition playToggle :: "state \<Rightarrow> state" where
  "playToggle s =
     (case playInterval s of
        Some t \<Rightarrow> s\<lparr> intervals := intervals s - {t}, playInterval := None \<rparr>
      | None \<Rightarrow>
          s\<lparr> timerSeq := Suc (timerSeq s),
             intervals := insert (Suc (timerSeq s)) (intervals s),
             playInterval := Some (Suc (timerSeq s)) \<rparr>)"

section \<open>Loading the frame lists\<close>

text \<open>
  The metadata document. Every field may be absent (\<open>None\<close>); a present frame list is an
  array of frame objects.
\<close>

record radar_meta =
  past :: "frame list option"
  nowcast :: "frame list option"

record satellite_meta =
  infrared :: "frame list option"

record metadata =
  host :: "string option"
  radar :: "radar_meta option"
  satellite :: "satellite_meta option"

text \<open>
  What the two awaits of \<open>fetchRainViewerData\<close> can produce: a rejection (the request
  failed or the body is not JSON), the JSON value \<open>null\<close>, or a document.
\<close>

datatype response = Rejected | JsonNull | JsonDoc metadata

datatype error = FetchError | TypeError

text \<open>\<open>x?.f\<close> and \<open>x || []\<close>.\<close>

definition opt_chain :: "'a option \<Rightarrow> ('a \<Rightarrow> 'b option) \<Rightarrow> 'b option" where
  "opt_chain x f = (case x of None \<Rightarrow> None | Some r \<Rightarrow> f r)"

definition or_empty :: "'a list option \<Rightarrow> 'a list" where
  "or_empty x = (case x of None \<Rightarrow> [] | Some xs \<Rightarrow> xs)"

definition fetchRainViewerData :: "response \<Rightarrow> state \<Rightarrow> error + state" where
  "fetchRainViewerData res s =
     (case res of
        Rejected \<Rightarrow> Inl FetchError
      | JsonNull \<Rightarrow> Inl TypeError
      | JsonDoc data \<Rightarrow>
          let s1 = s\<lparr> apiHost := host data \<rparr>;
              s2 = s1\<lparr> radarFrames :=
                         or_empty (opt_chain (radar data) past)
                           @ or_empty (opt_chain (radar data) nowcast) \<rparr>;
              s3 = s2\<lparr> satelliteFrames := or_empty (opt_chain (satellite data) infrared) \<rparr>
          in Inr (addOverlays (currentFrame s3) s3))"

section \<open>Input handlers\<close>

text \<open>
  The value of an opacity slider, read by \<open>parseFloat\<close>, is stored and copied into the
  layers; the script never computes with it, so a real number stands for it.
\<close>

definition setOpacityAll :: "handle option list \<Rightarrow> real \<Rightarrow> tile_layer list \<Rightarrow> tile_layer list" where
  "setOpacityAll cache v ls = fold (\<lambda>h ls. ls[h := (ls ! h)\<lparr> opacity := v \<rparr>]) (cached cache) ls"

definition opacityRainInput_oninput :: "real \<Rightarrow> state \<Rightarrow> state" where
  "opacityRainInput_oninput v s =
     (let s1 = s\<lparr> rainOpacity := v \<rparr>
      in s1\<lparr> tileLayers := setOpacityAll (radarOverlayLayers s1) (rainOpacity s1) (tileLayers s1) \<rparr>)"

definition opacityCloudInput_oninput :: "real \<Rightarrow> state \<Rightarrow> state" where
  "opacityCloudInput_oninput v s =
     (let s1 = s\<lparr> cloudOpacity := v \<rparr>
      in s1\<lparr> tileLayers := setOpacityAll (cloudOverlayLayers s1) (cloudOpacity s1) (tileLayers s1) \<rparr>)"

definition radarStyleSelect_onchange :: "string \<Rightarrow> state \<Rightarrow> state" where
  "radarStyleSelect_onchange sel s =
     (case map_of radarColorSchemes sel of
        None \<Rightarrow> s
      | Some k \<Rightarrow>
          let s1 = s\<lparr> optionColorScheme := k \<rparr>;
              s2 = removeOverlays (currentFrame s1) s1;
              s3 = s2\<lparr> radarOverlayLayers := [] \<rparr>
          in addOverlays (currentFrame s3) s3)"

text \<open>Changing the base style swaps the base layer, then adds the current overlays again.\<close>

definition mapStyleSelect_onchange :: "string \<Rightarrow> state \<Rightarrow> state" where
  "mapStyleSelect_onchange sel s =
     (if sel \<in> set mapStyles then addOverlays (currentFrame s) s else s)"

section \<open>Runs\<close>

datatype event =
    Loaded response
  | Next
  | Prev
  | Play
  | Tick
  | RainOpacity real
  | CloudOpacity real
  | RadarStyle string
  | MapStyle string

fun step :: "event \<Rightarrow> state \<Rightarrow> state" where
  "step (Loaded res) s = (case fetchRainViewerData res s of Inl e \<Rightarrow> s | Inr s' \<Rightarrow> s')"
| "step Next s = nextFrame s"
| "step Prev s = prevFrame s"
| "step Play s = playToggle s"
| "step Tick s = (if intervals s = {} then s else nextFrame s)"
| "step (RainOpacity v) s = opacityRainInput_oninput v s"
| "step (CloudOpacity v) s = opacityCloudInput_oninput v s"
| "step (RadarStyle sel) s = radarStyleSelect_onchange sel s"
| "step (MapStyle sel) s = mapStyleSelect_onchange sel s"

definition run :: "event list \<Rightarrow> state \<Rightarrow> state" where
  "run evs s = fold step evs s"


section \<open>Notions used in the properties\<close>

text \<open>The reads \<open>frames[frameIndex]\<close> and \<open>layers[frameIndex]\<close> with a number as the key.\<close>

definition frame_at :: "frame list \<Rightarrow> jsnum \<Rightarrow> frame option" where
  "frame_at fs i =
     (case index_of i of None \<Rightarrow> None
      | Some n \<Rightarrow> if n < length fs then Some (fs ! n) else None)"

definition layer_at :: "handle option list \<Rightarrow> jsnum \<Rightarrow> handle option" where
  "layer_at cache i = (case index_of i of None \<Rightarrow> None | Some n \<Rightarrow> arr_get cache n)"

text \<open>The current frame is an integer of the valid range \<open>[0, max)\<close>.\<close>

definition in_range :: "state \<Rightarrow> bool" where
  "in_range s =
     (case currentFrame s of Num i \<Rightarrow> 0 \<le> i \<and> i < int (frame_max s) | NaN \<Rightarrow> False)"

text \<open>
  Every cached address points into the store, and no layer object sits in both caches.
\<close>

definition store_ok :: "state \<Rightarrow> bool" where
  "store_ok s =
     (list_all (\<lambda>h. h < length (tileLayers s))
        (cached (radarOverlayLayers s) @ cached (cloudOverlayLayers s))
      \<and> list_all (\<lambda>h. h \<notin> set (cached (cloudOverlayLayers s))) (cached (radarOverlayLayers s)))"

text \<open>Every overlay on the map is the cached layer of the current frame, radar or satellite.\<close>

definition overlays_ok :: "state \<Rightarrow> bool" where
  "overlays_ok s =
     (map_layers s \<subseteq> set_option (layer_at (radarOverlayLayers s) (currentFrame s))
                      \<union> set_option (layer_at (cloudOverlayLayers s) (currentFrame s)))"

text \<open>
  What a radar tile URL ends in under the current options, after host and path: the part
  that carries the colour scheme.
\<close>

definition scheme_suffix :: "state \<Rightarrow> string" where
  "scheme_suffix s =
     ''/256/{z}/{x}/{y}/'' @ show_nat (optionColorScheme s) @ ''/''
       @ show_nat (optionSmoothData s) @ ''_'' @ show_nat (optionSnowColors s)
       @ ''.'' @ optionExtension s"

text \<open>Every cached radar layer has a URL that ends in the current scheme suffix.\<close>

definition radar_urls_ok :: "state \<Rightarrow> bool" where
  "radar_urls_ok s =
     list_all (\<lambda>h. suffix (scheme_suffix s) (url (tileLayers s ! h)))
       (cached (radarOverlayLayers s))"

text \<open>The events other than a change of the radar colour scheme.\<close>

fun keeps_scheme :: "event \<Rightarrow> bool" where
  "keeps_scheme (RadarStyle sel) = False"
| "keeps_scheme _ = True"

text \<open>Sample metadata documents and the states they load into.\<close>

definition doc2 :: metadata where
  "doc2 = \<lparr> host = Some ''https://t'',
            radar = Some \<lparr> past = Some [\<lparr> path = ''/r0'', time = 10 \<rparr>],
                           nowcast = Some [\<lparr> path = ''/r1'', time = 20 \<rparr>] \<rparr>,
            satellite = Some \<lparr> infrared = Some [\<lparr> path = ''/s0'', time = 10 \<rparr>,
                                                \<lparr> path = ''/s1'', time = 20 \<rparr>] \<rparr> \<rparr>"

definition doc1 :: metadata where
  "doc1 = \<lparr> host = Some ''https://t'',
            radar = Some \<lparr> past = Some [\<lparr> path = ''/r0'', time = 10 \<rparr>], nowcast = None \<rparr>,
            satellite = Some \<lparr> infrared = Some [\<lparr> path = ''/s0'', time = 10 \<rparr>] \<rparr> \<rparr>"

definition doc_radar_only :: metadata where
  "doc_radar_only =
     \<lparr> host = Some ''https://t'',
       radar = Some \<lparr> past = Some [\<lparr> path = ''/r0'', time = 10 \<rparr>], nowcast = None \<rparr>,
       satellite = None \<rparr>"

definition loaded2 :: state where
  "loaded2 = step (Loaded (JsonDoc doc2)) init"

definition loaded1 :: state where
  "loaded1 = step (Loaded (JsonDoc doc1)) init"

definition loaded_radar_only :: state where
  "loaded_radar_only = step (Loaded (JsonDoc doc_radar_only)) init"

text \<open>The two-frame state after one step forward: frame 1 is shown, frame 0 is cached.\<close>

definition shown1 :: state where
  "shown1 = nextFrame loaded2"

text \<open>That state after the colour scheme has been changed to \<open>titan\<close>.\<close>

definition restyled1 :: state where
  "restyled1 = radarStyleSelect_onchange ''titan'' shown1"

section \<open>Basic facts\<close>

lemma show_nat_256: "show_nat 256 = ''256''"
  by (simp add: show_nat.simps)

lemma arr_get_arr_set: "arr_get (arr_set xs n v) m = (if m = n then Some v else arr_get xs m)"
  by (auto simp: arr_get_def arr_set_def nth_append)

lemma set_cached: "set (cached xs) = {h. Some h \<in> set xs}"
  by (induction xs rule: cached.induct) auto

lemma arr_get_cached: "arr_get xs n = Some h \<Longrightarrow> h \<in> set (cached xs)"
  by (metis arr_get_def nth_mem option.distinct(1) set_cached mem_Collect_eq)

lemma cached_arr_set: "set (cached (arr_set xs n v)) \<subseteq> insert v (set (cached xs))"
  by (auto simp: set_cached arr_set_def dest: set_update_subset_insert [THEN subsetD])

lemma addOverlays_missing:
  "frame_at (radarFrames s) i = None \<or> frame_at (satelliteFrames s) i = None
   \<Longrightarrow> addOverlays i s = s"
  by (auto simp: addOverlays_def frame_at_def split: option.splits if_splits)

lemma addOverlays_present:
  assumes "frame_at (radarFrames s) i = Some rf" "frame_at (satelliteFrames s) i = Some sf"
  shows "\<exists>hr hc. layer_at (radarOverlayLayers (addOverlays i s)) i = Some hr
           \<and> layer_at (cloudOverlayLayers (addOverlays i s)) i = Some hc
           \<and> hr \<in> map_layers (addOverlays i s) \<and> hc \<in> map_layers (addOverlays i s)"
  using assms
  by (auto simp: addOverlays_def addRadarOverlay_def addCloudOverlay_def frame_at_def
             layer_at_def Let_def arr_get_arr_set
           split: option.splits if_splits)

lemma addOverlays_fields:
  "currentFrame (addOverlays i s) = currentFrame s"
  "radarFrames (addOverlays i s) = radarFrames s"
  "satelliteFrames (addOverlays i s) = satelliteFrames s"
  "playInterval (addOverlays i s) = playInterval s"
  "intervals (addOverlays i s) = intervals s"
  "timerSeq (addOverlays i s) = timerSeq s"
  "apiHost (addOverlays i s) = apiHost s"
  "rainOpacity (addOverlays i s) = rainOpacity s"
  "cloudOpacity (addOverlays i s) = cloudOpacity s"
  "optionColorScheme (addOverlays i s) = optionColorScheme s"
  "optionSmoothData (addOverlays i s) = optionSmoothData s"
  "optionSnowColors (addOverlays i s) = optionSnowColors s"
  "optionExtension (addOverlays i s) = optionExtension s"
  by (simp_all add: addOverlays_def addRadarOverlay_def addCloudOverlay_def Let_def
        split: option.splits)

lemma removeOverlays_eq:
  "removeOverlays i s = s\<lparr> map_layers := map_layers (removeOverlays i s) \<rparr>"
  by (simp add: removeOverlays_def Let_def split: option.splits)

lemma removeOverlays_subset: "map_layers (removeOverlays i s) \<subseteq> map_layers s"
  by (auto simp: removeOverlays_def Let_def split: option.splits if_splits)

lemma removeOverlays_fields:
  "currentFrame (removeOverlays i s) = currentFrame s"
  "radarFrames (removeOverlays i s) = radarFrames s"
  "satelliteFrames (removeOverlays i s) = satelliteFrames s"
  "tileLayers (removeOverlays i s) = tileLayers s"
  "radarOverlayLayers (removeOverlays i s) = radarOverlayLayers s"
  "cloudOverlayLayers (removeOverlays i s) = cloudOverlayLayers s"
  by (simp_all add: removeOverlays_def Let_def split: option.splits)

lemma showFrame_fields:
  "currentFrame (showFrame i s) = i"
  "radarFrames (showFrame i s) = radarFrames s"
  "satelliteFrames (showFrame i s) = satelliteFrames s"
  by (simp_all add: showFrame_def Let_def addOverlays_fields removeOverlays_fields)

lemma frame_max_showFrame: "frame_max (showFrame i s) = frame_max s"
  by (simp add: frame_max_def showFrame_fields)

lemma nextFrame_fields:
  "currentFrame (nextFrame s) = js_mod (js_add (currentFrame s) (Num 1)) (Num (int (frame_max s)))"
  "frame_max (nextFrame s) = frame_max s"
  by (simp_all add: nextFrame_def Let_def showFrame_fields frame_max_showFrame)

lemma prevFrame_fields:
  "currentFrame (prevFrame s) =
     js_mod (js_add (js_sub (currentFrame s) (Num 1)) (Num (int (frame_max s))))
       (Num (int (frame_max s)))"
  "frame_max (prevFrame s) = frame_max s"
  by (simp_all add: prevFrame_def Let_def showFrame_fields frame_max_showFrame)

lemma js_mod_nonneg: "0 \<le> a \<Longrightarrow> 0 < b \<Longrightarrow> js_mod (Num a) (Num b) = Num (a mod b)"
  by (cases "a = 0") (simp_all add: sgn_if)

lemma next_index:
  "0 \<le> i \<Longrightarrow> i < m \<Longrightarrow> js_mod (js_add (Num i) (Num 1)) (Num m) = Num ((i + 1) mod m)"
  using js_mod_nonneg [of "i + 1" m] by simp

lemma prev_index:
  "0 \<le> i \<Longrightarrow> i < m \<Longrightarrow>
     js_mod (js_add (js_sub (Num i) (Num 1)) (Num m)) (Num m) = Num ((i - 1 + m) mod m)"
  using js_mod_nonneg [of "i - 1 + m" m] by simp

lemma in_range_nextFrame: "in_range s \<Longrightarrow> in_range (nextFrame s)"
  by (auto simp: in_range_def nextFrame_fields next_index simp del: js_add.simps js_mod.simps
           split: jsnum.splits)

lemma in_range_prevFrame: "in_range s \<Longrightarrow> in_range (prevFrame s)"
  by (auto simp: in_range_def prevFrame_fields prev_index
           simp del: js_add.simps js_sub.simps js_mod.simps split: jsnum.splits)

lemma step_Loaded_doc:
  "step (Loaded (JsonDoc d)) s =
     addOverlays (currentFrame s)
       (s\<lparr> apiHost := host d,
           radarFrames := or_empty (opt_chain (radar d) past)
                            @ or_empty (opt_chain (radar d) nowcast),
           satelliteFrames := or_empty (opt_chain (satellite d) infrared) \<rparr>)"
  by (simp add: fetchRainViewerData_def Let_def)

lemma loaded2_fields:
  "currentFrame loaded2 = Num 0"
  "radarFrames loaded2 = [\<lparr> path = ''/r0'', time = 10 \<rparr>, \<lparr> path = ''/r1'', time = 20 \<rparr>]"
  "satelliteFrames loaded2 = [\<lparr> path = ''/s0'', time = 10 \<rparr>, \<lparr> path = ''/s1'', time = 20 \<rparr>]"
  by (simp_all add: loaded2_def step_Loaded_doc addOverlays_fields doc2_def init_def
        opt_chain_def or_empty_def del: step.simps)

lemma loaded1_fields:
  "currentFrame loaded1 = Num 0"
  "radarFrames loaded1 = [\<lparr> path = ''/r0'', time = 10 \<rparr>]"
  "satelliteFrames loaded1 = [\<lparr> path = ''/s0'', time = 10 \<rparr>]"
  by (simp_all add: loaded1_def step_Loaded_doc addOverlays_fields doc1_def init_def
        opt_chain_def or_empty_def del: step.simps)

lemma in_range_loaded2: "in_range loaded2"
  by (simp add: in_range_def frame_max_def loaded2_fields)

lemma in_range_loaded1: "in_range loaded1"
  by (simp add: in_range_def frame_max_def loaded1_fields)

section \<open>Frame index\<close>

text \<open>
  From a state whose current frame is an integer of \<open>[0, max)\<close>, with \<open>max\<close> the smaller
  of the two frame counts, every sequence of \<open>nextFrame\<close> and \<open>prevFrame\<close> calls leaves
  the current frame in \<open>[0, max)\<close>.
\<close>

lemma in_range_run:
  "in_range s \<Longrightarrow> set evs \<subseteq> {Next, Prev} \<Longrightarrow> in_range (run evs s)"
  unfolding run_def
proof (induction evs arbitrary: s)
  case Nil
  then show ?case by simp
next
  case (Cons e evs)
  from Cons.prems have "e = Next \<or> e = Prev" by simp
  with Cons.prems(1) have "in_range (step e s)"
    by (auto intro: in_range_nextFrame in_range_prevFrame)
  with Cons show ?case by simp
qed

text \<open>
  C1: for every sequence of \<open>nextFrame\<close> and \<open>prevFrame\<close> calls from a reachable state the
  current frame stays in \<open>[0, max)\<close>. The script does not keep this. While the catalog is
  empty \<open>max\<close> is 0, and \<open>nextFrame\<close> stores the remainder by zero, \<open>NaN\<close>, as the current
  frame. A call before the load completes therefore leaves \<open>NaN\<close> behind; the load does
  not reset it, no overlay is attached, and with two frames of each kind loaded every
  later \<open>nextFrame\<close> and \<open>prevFrame\<close> keeps the current frame at \<open>NaN\<close>, outside \<open>[0, 2)\<close>.
\<close>

theorem frame_index_lost_after_early_next:
  "currentFrame (run [Next] init) = NaN
   \<and> frame_max (run [Next, Loaded (JsonDoc doc2)] init) = 2
   \<and> currentFrame (run [Next, Loaded (JsonDoc doc2)] init) = NaN
   \<and> map_layers (run [Next, Loaded (JsonDoc doc2)] init) = {}
   \<and> currentFrame (run [Next, Loaded (JsonDoc doc2), Next] init) = NaN
   \<and> currentFrame (run [Next, Loaded (JsonDoc doc2), Prev] init) = NaN
   \<and> \<not> in_range (run [Next, Loaded (JsonDoc doc2), Next] init)
   \<and> \<not> in_range (run [Next, Loaded (JsonDoc doc2), Prev] init)"
proof -
  define s2 where "s2 = step (Loaded (JsonDoc doc2)) (nextFrame init)"
  have m0: "frame_max init = 0" by (simp add: frame_max_def init_def)
  have c1: "currentFrame (nextFrame init) = NaN"
    by (simp add: nextFrame_fields m0) (simp add: init_def)
  have n1: "map_layers (nextFrame init) = {}"
    using removeOverlays_subset [of "currentFrame init" init] c1
    by (simp add: nextFrame_def showFrame_def Let_def addOverlays_def m0)
      (simp add: init_def)
  have c2: "currentFrame s2 = NaN"
    using c1 by (simp add: s2_def step_Loaded_doc addOverlays_fields del: step.simps)
  have n2: "map_layers s2 = {}"
    using c1 n1 by (simp add: s2_def step_Loaded_doc addOverlays_def del: step.simps)
  have m2: "frame_max s2 = 2"
    by (simp add: s2_def step_Loaded_doc addOverlays_fields frame_max_def doc2_def
          opt_chain_def or_empty_def del: step.simps)
  have c3: "currentFrame (nextFrame s2) = NaN" "currentFrame (prevFrame s2) = NaN"
    by (simp_all add: nextFrame_fields prevFrame_fields c2)
  have r: "run [Next, Loaded (JsonDoc doc2), Next] init = nextFrame s2"
    "run [Next, Loaded (JsonDoc doc2), Prev] init = prevFrame s2"
    "run [Next, Loaded (JsonDoc doc2)] init = s2" "run [Next] init = nextFrame init"
    by (simp_all add: run_def s2_def)
  show ?thesis
    unfolding r using c1 c2 c3 m2 n2 by (simp add: in_range_def)
qed

text \<open>
  From a state whose current frame is in the valid range, \<open>nextFrame\<close> followed by
  \<open>prevFrame\<close>, and \<open>prevFrame\<close> followed by \<open>nextFrame\<close>, give back the current frame; when
  \<open>max\<close> is 1 each of the two alone leaves the current frame as it is.
\<close>

lemma round_trip_in_range:
  "in_range s \<Longrightarrow>
     currentFrame (prevFrame (nextFrame s)) = currentFrame s
     \<and> currentFrame (nextFrame (prevFrame s)) = currentFrame s
     \<and> (frame_max s \<le> 1 \<longrightarrow>
          currentFrame (nextFrame s) = currentFrame s
          \<and> currentFrame (prevFrame s) = currentFrame s)"
proof -
  assume r: "in_range s"
  then obtain i where i: "currentFrame s = Num i" "0 \<le> i" "i < int (frame_max s)"
    by (auto simp: in_range_def split: jsnum.splits)
  define m where "m = int (frame_max s)"
  have m: "0 < m" "i < m" using i by (simp_all add: m_def)
  have n: "currentFrame (nextFrame s) = Num ((i + 1) mod m)"
    using i m by (simp add: nextFrame_fields next_index m_def del: js_add.simps js_mod.simps)
  have p: "currentFrame (prevFrame s) = Num ((i - 1 + m) mod m)"
    using i m
    by (simp add: prevFrame_fields prev_index m_def del: js_add.simps js_sub.simps js_mod.simps)
  have a: "0 \<le> (i + 1) mod m" "0 \<le> (i - 1 + m) mod m" using m by simp_all
  have pn: "currentFrame (prevFrame (nextFrame s)) = Num (((i + 1) mod m - 1 + m) mod m)"
    using a m n prev_index [of "(i + 1) mod m" m]
    by (simp add: prevFrame_fields nextFrame_fields m_def
          del: js_add.simps js_sub.simps js_mod.simps)
  have np: "currentFrame (nextFrame (prevFrame s)) = Num (((i - 1 + m) mod m + 1) mod m)"
    using a m p next_index [of "(i - 1 + m) mod m" m]
    by (simp add: prevFrame_fields nextFrame_fields m_def
          del: js_add.simps js_sub.simps js_mod.simps)
  have e1: "((i + 1) mod m - 1 + m) mod m = i"
  proof (cases "i + 1 = m")
    case True
    then have "(i + 1) mod m - 1 + m = i" by simp
    then show ?thesis using i m by simp
  next
    case False
    then have "(i + 1) mod m = i + 1" using i m by simp
    then have "(i + 1) mod m - 1 + m = i + m" by simp
    then show ?thesis using i m by simp
  qed
  have e2: "((i - 1 + m) mod m + 1) mod m = i"
  proof (cases "i = 0")
    case True
    then have "i - 1 + m = m - 1" by simp
    moreover have "(m - 1) mod m = m - 1" by (rule mod_pos_pos_trivial) (use m in auto)
    ultimately have "(i - 1 + m) mod m = m - 1" by simp
    then have "(i - 1 + m) mod m + 1 = m" by simp
    then show ?thesis using True by simp
  next
    case False
    then have "(i - 1) mod m = i - 1" by (intro mod_pos_pos_trivial) (use i m in auto)
    then have "(i - 1 + m) mod m = i - 1" by simp
    then have "(i - 1 + m) mod m + 1 = i" by simp
    then show ?thesis using i m by simp
  qed
  have one: "frame_max s \<le> 1 \<Longrightarrow> m = 1 \<and> i = 0" using m i by (simp add: m_def)
  show ?thesis using pn np e1 e2 n p i one by auto
qed

text \<open>
  C5: \<open>nextFrame\<close> then \<open>prevFrame\<close>, or the reverse, returns the current frame to its
  value, and with \<open>max\<close> at most 1 each of the two is the identity on it. The script
  does not keep this when \<open>max\<close> is 0. A load that delivers a radar frame and no satellite
  frame leaves the current frame at 0 with \<open>max = 0\<close>; \<open>nextFrame\<close> and \<open>prevFrame\<close> then
  store the remainder by zero, \<open>NaN\<close>, and neither round trip brings 0 back.
\<close>

theorem step_identity_lost_at_empty_max:
  "radarFrames (run [Loaded (JsonDoc doc_radar_only)] init) \<noteq> []
   \<and> frame_max (run [Loaded (JsonDoc doc_radar_only)] init) = 0
   \<and> currentFrame (run [Loaded (JsonDoc doc_radar_only)] init) = Num 0
   \<and> currentFrame (run [Loaded (JsonDoc doc_radar_only), Next] init) = NaN
   \<and> currentFrame (run [Loaded (JsonDoc doc_radar_only), Prev] init) = NaN
   \<and> currentFrame (run [Loaded (JsonDoc doc_radar_only), Next, Prev] init) = NaN
   \<and> currentFrame (run [Loaded (JsonDoc doc_radar_only), Prev, Next] init) = NaN"
proof -
  define s1 where "s1 = step (Loaded (JsonDoc doc_radar_only)) init"
  have f: "radarFrames s1 = [\<lparr> path = ''/r0'', time = 10 \<rparr>]" "satelliteFrames s1 = []"
    "currentFrame s1 = Num 0"
    by (simp_all add: s1_def step_Loaded_doc addOverlays_fields doc_radar_only_def init_def
          opt_chain_def or_empty_def del: step.simps)
  have m: "frame_max s1 = 0" by (simp add: frame_max_def f)
  have n: "currentFrame (nextFrame s1) = NaN" "currentFrame (prevFrame s1) = NaN"
    by (simp_all add: nextFrame_fields prevFrame_fields f m)
  have nn: "currentFrame (prevFrame (nextFrame s1)) = NaN"
    "currentFrame (nextFrame (prevFrame s1)) = NaN"
    by (simp_all add: nextFrame_fields prevFrame_fields f m)
  have r: "run [Loaded (JsonDoc doc_radar_only)] init = s1"
    "run [Loaded (JsonDoc doc_radar_only), Next] init = nextFrame s1"
    "run [Loaded (JsonDoc doc_radar_only), Prev] init = prevFrame s1"
    "run [Loaded (JsonDoc doc_radar_only), Next, Prev] init = prevFrame (nextFrame s1)"
    "run [Loaded (JsonDoc doc_radar_only), Prev, Next] init = nextFrame (prevFrame s1)"
    by (simp_all add: run_def s1_def)
  show ?thesis unfolding r using f m n nn by simp
qed

section \<open>Tile URLs and loading\<close>

text \<open>
  C7. For every frame and every state of the options, the satellite tile URL is the host,
  the frame's path, \<open>/256/{z}/{x}/{y}/0/0_0.\<close> and the image format; it does not change
  with the colour scheme, the smoothing flag or the snow-colour flag.
\<close>

theorem satellite_url_template:
  "buildSatelliteTileUrl s fr
     = show_host (apiHost s) @ path fr @ ''/256/{z}/{x}/{y}/0/0_0.'' @ optionExtension s
   \<and> buildSatelliteTileUrl
       (s\<lparr> optionColorScheme := k, optionSmoothData := a, optionSnowColors := b \<rparr>) fr
     = buildSatelliteTileUrl s fr"
  by (simp add: buildSatelliteTileUrl_def show_nat_256)

text \<open>
  C9. Loading a metadata document never fails, whichever of \<open>radar\<close>, \<open>radar.past\<close>,
  \<open>radar.nowcast\<close>, \<open>satellite\<close> and \<open>satellite.infrared\<close> are absent: the radar frames are
  the past frames followed by the nowcast frames and the satellite frames are the infrared
  frames, an absent list counting as empty.
\<close>

theorem load_missing_fields_default_empty:
  "\<exists>s'. fetchRainViewerData (JsonDoc d) s = Inr s'
     \<and> radarFrames s' =
         (case radar d of None \<Rightarrow> []
          | Some r \<Rightarrow> (case past r of None \<Rightarrow> [] | Some ps \<Rightarrow> ps)
                       @ (case nowcast r of None \<Rightarrow> [] | Some ns \<Rightarrow> ns))
     \<and> satelliteFrames s' =
         (case satellite d of None \<Rightarrow> []
          | Some m \<Rightarrow> (case infrared m of None \<Rightarrow> [] | Some xs \<Rightarrow> xs))"
  by (simp add: fetchRainViewerData_def Let_def addOverlays_fields opt_chain_def or_empty_def
        split: option.splits)

section \<open>Invariants of the layer store\<close>


lemma store_ok_iff:
  "store_ok s \<longleftrightarrow>
     (\<forall>h \<in> set (cached (radarOverlayLayers s)) \<union> set (cached (cloudOverlayLayers s)).
        h < length (tileLayers s))
     \<and> set (cached (radarOverlayLayers s)) \<inter> set (cached (cloudOverlayLayers s)) = {}"
  by (auto simp: store_ok_def list_all_iff)

lemma store_ok_addRadarOverlay: "store_ok s \<Longrightarrow> store_ok (addRadarOverlay n s)"
  unfolding store_ok_iff addRadarOverlay_def Let_def
  by (cases "arr_get (radarOverlayLayers s) n")
     (auto dest!: cached_arr_set [THEN subsetD] simp: less_Suc_eq)

lemma store_ok_addCloudOverlay: "store_ok s \<Longrightarrow> store_ok (addCloudOverlay n s)"
  unfolding store_ok_iff addCloudOverlay_def Let_def
  by (cases "arr_get (cloudOverlayLayers s) n")
     (auto dest!: cached_arr_set [THEN subsetD] simp: less_Suc_eq)

lemma store_ok_addOverlays: "store_ok s \<Longrightarrow> store_ok (addOverlays i s)"
  by (simp add: addOverlays_def store_ok_addRadarOverlay store_ok_addCloudOverlay
        split: option.splits)

lemma store_ok_removeOverlays: "store_ok s \<Longrightarrow> store_ok (removeOverlays i s)"
  by (subst removeOverlays_eq) (simp add: store_ok_def removeOverlays_fields)

lemma overlays_ok_addOverlays: "overlays_ok s \<Longrightarrow> overlays_ok (addOverlays (currentFrame s) s)"
  unfolding overlays_ok_def addOverlays_def addRadarOverlay_def addCloudOverlay_def Let_def layer_at_def
  by (auto split: option.splits simp: arr_get_arr_set)

lemma removeOverlays_current:
  "overlays_ok s \<Longrightarrow> map_layers (removeOverlays (currentFrame s) s) = {}"
  unfolding overlays_ok_def removeOverlays_def Let_def layer_at_def
  by (auto split: option.splits)

lemma fold_opacity_length:
  "length (fold (\<lambda>h ls. ls[h := (ls ! h)\<lparr> opacity := v \<rparr>]) hs ls) = length ls"
  by (induction hs arbitrary: ls) simp_all

lemma fold_opacity_url:
  "url (fold (\<lambda>h ls. ls[h := (ls ! h)\<lparr> opacity := v \<rparr>]) hs ls ! k) = url (ls ! k)"
proof (induction hs arbitrary: ls)
  case Nil
  then show ?case by simp
next
  case (Cons h hs)
  have "url (ls[h := (ls ! h)\<lparr> opacity := v \<rparr>] ! k) = url (ls ! k)"
    by (cases "h = k"; cases "h < length ls") (simp_all add: list_update_beyond)
  with Cons show ?case by simp
qed

lemma fold_opacity_other:
  "k \<notin> set hs \<Longrightarrow> fold (\<lambda>h ls. ls[h := (ls ! h)\<lparr> opacity := v \<rparr>]) hs ls ! k = ls ! k"
  by (induction hs arbitrary: ls) simp_all

lemma fold_opacity_set:
  "k \<in> set hs \<Longrightarrow> k < length ls \<Longrightarrow>
     opacity (fold (\<lambda>h ls. ls[h := (ls ! h)\<lparr> opacity := v \<rparr>]) hs ls ! k) = v"
proof (induction hs arbitrary: ls)
  case Nil
  then show ?case by simp
next
  case (Cons h hs)
  show ?case
  proof (cases "k \<in> set hs")
    case True
    with Cons show ?thesis by simp
  next
    case False
    with Cons.prems have "h = k" by simp
    with False Cons.prems show ?thesis by (simp add: fold_opacity_other)
  qed
qed


lemma addRadarOverlay_fields:
  "cloudOverlayLayers (addRadarOverlay n s) = cloudOverlayLayers s"
  "currentFrame (addRadarOverlay n s) = currentFrame s"
  "radarFrames (addRadarOverlay n s) = radarFrames s"
  "satelliteFrames (addRadarOverlay n s) = satelliteFrames s"
  by (simp_all add: addRadarOverlay_def Let_def split: option.splits)

lemma addCloudOverlay_fields:
  "radarOverlayLayers (addCloudOverlay n s) = radarOverlayLayers s"
  "currentFrame (addCloudOverlay n s) = currentFrame s"
  by (simp_all add: addCloudOverlay_def Let_def split: option.splits)

lemma addRadarOverlay_old_layer:
  "h < length (tileLayers s) \<Longrightarrow> tileLayers (addRadarOverlay n s) ! h = tileLayers s ! h"
  by (simp add: addRadarOverlay_def Let_def nth_append split: option.splits)

lemma addCloudOverlay_old_layer:
  "h < length (tileLayers s) \<Longrightarrow> tileLayers (addCloudOverlay n s) ! h = tileLayers s ! h"
  by (simp add: addCloudOverlay_def Let_def nth_append split: option.splits)

lemma addRadarOverlay_length:
  "length (tileLayers s) \<le> length (tileLayers (addRadarOverlay n s))"
  by (simp add: addRadarOverlay_def Let_def split: option.splits)

lemma addCloudOverlay_length:
  "length (tileLayers s) \<le> length (tileLayers (addCloudOverlay n s))"
  by (simp add: addCloudOverlay_def Let_def split: option.splits)

lemma addOverlays_length: "length (tileLayers s) \<le> length (tileLayers (addOverlays i s))"
proof -
  have "length (tileLayers s) \<le> length (tileLayers (addCloudOverlay n (addRadarOverlay n s)))"
    for n
    using addRadarOverlay_length [of s n] addCloudOverlay_length [of "addRadarOverlay n s" n]
    by linarith
  then show ?thesis by (simp add: addOverlays_def split: option.splits)
qed

lemma addOverlays_old_layer:
  "h < length (tileLayers s) \<Longrightarrow> tileLayers (addOverlays i s) ! h = tileLayers s ! h"
proof -
  assume h: "h < length (tileLayers s)"
  have "h < length (tileLayers (addRadarOverlay n s))" for n
    using h addRadarOverlay_length [of s n] by simp
  then show ?thesis
    using h
    by (simp add: addOverlays_def addCloudOverlay_old_layer addRadarOverlay_old_layer
          split: option.splits)
qed

lemma addRadarOverlay_keeps:
  "arr_get (radarOverlayLayers s) m = Some h \<Longrightarrow>
     arr_get (radarOverlayLayers (addRadarOverlay n s)) m = Some h"
  by (auto simp: addRadarOverlay_def Let_def arr_get_arr_set split: option.splits)

lemma addCloudOverlay_keeps:
  "arr_get (cloudOverlayLayers s) m = Some h \<Longrightarrow>
     arr_get (cloudOverlayLayers (addCloudOverlay n s)) m = Some h"
  by (auto simp: addCloudOverlay_def Let_def arr_get_arr_set split: option.splits)

lemma addOverlays_keeps_radar:
  "arr_get (radarOverlayLayers s) m = Some h \<Longrightarrow>
     arr_get (radarOverlayLayers (addOverlays i s)) m = Some h"
  by (simp add: addOverlays_def addCloudOverlay_fields addRadarOverlay_keeps split: option.splits)

lemma addOverlays_keeps_cloud:
  "arr_get (cloudOverlayLayers s) m = Some h \<Longrightarrow>
     arr_get (cloudOverlayLayers (addOverlays i s)) m = Some h"
  by (simp add: addOverlays_def addRadarOverlay_fields addCloudOverlay_keeps split: option.splits)

lemma addRadarOverlay_hit:
  "arr_get (radarOverlayLayers s) n = Some h \<Longrightarrow>
     addRadarOverlay n s = s\<lparr> map_layers := insert h (map_layers s) \<rparr>"
  by (simp add: addRadarOverlay_def)

lemma addCloudOverlay_hit:
  "arr_get (cloudOverlayLayers s) n = Some h \<Longrightarrow>
     addCloudOverlay n s = s\<lparr> map_layers := insert h (map_layers s) \<rparr>"
  by (simp add: addCloudOverlay_def)

lemma addOverlays_attached:
  assumes "layer_at (radarOverlayLayers s) i = Some hr" "layer_at (cloudOverlayLayers s) i = Some hc"
    "hr \<in> map_layers s" "hc \<in> map_layers s"
  shows "addOverlays i s = s"
proof (cases "frame_at (radarFrames s) i = None \<or> frame_at (satelliteFrames s) i = None")
  case True
  then show ?thesis by (rule addOverlays_missing)
next
  case False
  then obtain n where n: "index_of i = Some n" "n < length (radarFrames s)"
    "n < length (satelliteFrames s)"
    by (auto simp: frame_at_def split: option.splits if_splits)
  from assms n have c: "arr_get (radarOverlayLayers s) n = Some hr"
    "arr_get (cloudOverlayLayers s) n = Some hc"
    by (simp_all add: layer_at_def)
  have "addRadarOverlay n s = s" using c assms by (simp add: addRadarOverlay_hit insert_absorb)
  moreover have "addCloudOverlay n s = s"
    using c assms by (simp add: addCloudOverlay_hit insert_absorb)
  ultimately show ?thesis using n by (simp add: addOverlays_def)
qed

lemma addOverlays_idem: "addOverlays i (addOverlays i s) = addOverlays i s"
proof (cases "frame_at (radarFrames s) i = None \<or> frame_at (satelliteFrames s) i = None")
  case True
  then show ?thesis by (simp add: addOverlays_missing)
next
  case False
  then obtain rf sf where "frame_at (radarFrames s) i = Some rf"
    "frame_at (satelliteFrames s) i = Some sf" by auto
  from addOverlays_present [OF this] obtain hr hc where
    "layer_at (radarOverlayLayers (addOverlays i s)) i = Some hr"
    "layer_at (cloudOverlayLayers (addOverlays i s)) i = Some hc"
    "hr \<in> map_layers (addOverlays i s)" "hc \<in> map_layers (addOverlays i s)"
    by blast
  then show ?thesis by (rule addOverlays_attached)
qed

lemma addOverlays_no_construction:
  assumes "layer_at (radarOverlayLayers s) i \<noteq> None" "layer_at (cloudOverlayLayers s) i \<noteq> None"
  shows "tileLayers (addOverlays i s) = tileLayers s"
    "radarOverlayLayers (addOverlays i s) = radarOverlayLayers s"
    "cloudOverlayLayers (addOverlays i s) = cloudOverlayLayers s"
proof -
  have "tileLayers (addOverlays i s) = tileLayers s
    \<and> radarOverlayLayers (addOverlays i s) = radarOverlayLayers s
    \<and> cloudOverlayLayers (addOverlays i s) = cloudOverlayLayers s"
  proof (cases "index_of i")
    case None
    then show ?thesis by (simp add: addOverlays_def)
  next
    case (Some n)
    with assms obtain hr hc where c: "arr_get (radarOverlayLayers s) n = Some hr"
      "arr_get (cloudOverlayLayers s) n = Some hc"
      by (auto simp: layer_at_def)
    have r: "addRadarOverlay n s = s\<lparr> map_layers := insert hr (map_layers s) \<rparr>"
      using c by (simp add: addRadarOverlay_hit)
    have "addCloudOverlay n (addRadarOverlay n s)
            = s\<lparr> map_layers := insert hc (insert hr (map_layers s)) \<rparr>"
      unfolding r using c by (simp add: addCloudOverlay_hit)
    then show ?thesis using Some by (simp add: addOverlays_def)
  qed
  then show "tileLayers (addOverlays i s) = tileLayers s"
    "radarOverlayLayers (addOverlays i s) = radarOverlayLayers s"
    "cloudOverlayLayers (addOverlays i s) = cloudOverlayLayers s"
    by simp_all
qed

lemma overlays_ok_init: "overlays_ok init"
  by (simp add: overlays_ok_def init_def)

lemma store_ok_init: "store_ok init"
  by (simp add: store_ok_def init_def)

lemma overlays_ok_showFrame: "overlays_ok s \<Longrightarrow> overlays_ok (showFrame j s)"
proof -
  assume a: "overlays_ok s"
  define s2 where "s2 = (removeOverlays (currentFrame s) s)\<lparr> currentFrame := j \<rparr>"
  have "map_layers s2 = {}" using removeOverlays_current [OF a] by (simp add: s2_def)
  then have "overlays_ok s2" by (simp add: overlays_ok_def)
  from overlays_ok_addOverlays [OF this] show ?thesis
    by (simp add: showFrame_def Let_def s2_def)
qed

lemma store_ok_showFrame: "store_ok s \<Longrightarrow> store_ok (showFrame j s)"
proof -
  assume a: "store_ok s"
  have "store_ok ((removeOverlays (currentFrame s) s)\<lparr> currentFrame := j \<rparr>)"
    using store_ok_removeOverlays [OF a, of "currentFrame s"] by (simp add: store_ok_def)
  then show ?thesis by (simp add: showFrame_def Let_def store_ok_addOverlays)
qed

lemma overlays_ok_scheme: "overlays_ok s \<Longrightarrow> overlays_ok (radarStyleSelect_onchange sel s)"
proof (cases "map_of radarColorSchemes sel")
  case None
  then show "overlays_ok s \<Longrightarrow> ?thesis" by (simp add: radarStyleSelect_onchange_def)
next
  case (Some k)
  assume a: "overlays_ok s"
  define s1 where "s1 = s\<lparr> optionColorScheme := k \<rparr>"
  define s3 where "s3 = (removeOverlays (currentFrame s1) s1)\<lparr> radarOverlayLayers := [] \<rparr>"
  have "overlays_ok s1" using a by (simp add: overlays_ok_def s1_def)
  from removeOverlays_current [OF this] have "map_layers s3 = {}" by (simp add: s3_def)
  then have "overlays_ok s3" by (simp add: overlays_ok_def)
  from overlays_ok_addOverlays [OF this] show ?thesis
    using Some by (simp add: radarStyleSelect_onchange_def Let_def s3_def s1_def)
qed

lemma store_ok_scheme: "store_ok s \<Longrightarrow> store_ok (radarStyleSelect_onchange sel s)"
proof (cases "map_of radarColorSchemes sel")
  case None
  then show "store_ok s \<Longrightarrow> ?thesis" by (simp add: radarStyleSelect_onchange_def)
next
  case (Some k)
  assume a: "store_ok s"
  define s1 where "s1 = s\<lparr> optionColorScheme := k \<rparr>"
  define s3 where "s3 = (removeOverlays (currentFrame s1) s1)\<lparr> radarOverlayLayers := [] \<rparr>"
  have "store_ok s3" using a by (simp add: store_ok_def s3_def s1_def removeOverlays_fields)
  from store_ok_addOverlays [OF this] show ?thesis
    using Some by (simp add: radarStyleSelect_onchange_def Let_def s3_def s1_def)
qed

lemma overlays_ok_step: "overlays_ok s \<Longrightarrow> overlays_ok (step e s)"
proof (cases e)
  case (Loaded res)
  assume a: "overlays_ok s"
  show ?thesis
  proof (cases res)
    case (JsonDoc d)
    define s3 where "s3 = s\<lparr> apiHost := host d,
           radarFrames := or_empty (opt_chain (radar d) past)
                            @ or_empty (opt_chain (radar d) nowcast),
           satelliteFrames := or_empty (opt_chain (satellite d) infrared) \<rparr>"
    have "overlays_ok s3" using a by (simp add: overlays_ok_def s3_def)
    from overlays_ok_addOverlays [OF this] show ?thesis
      unfolding Loaded JsonDoc step_Loaded_doc by (simp add: s3_def)
  qed (use a Loaded in \<open>simp_all add: fetchRainViewerData_def\<close>)
next
  case (RainOpacity v)
  then show "overlays_ok s \<Longrightarrow> ?thesis"
    by (simp add: overlays_ok_def opacityRainInput_oninput_def Let_def)
next
  case (CloudOpacity v)
  then show "overlays_ok s \<Longrightarrow> ?thesis"
    by (simp add: overlays_ok_def opacityCloudInput_oninput_def Let_def)
next
  case Play
  then show "overlays_ok s \<Longrightarrow> ?thesis"
    by (simp add: overlays_ok_def playToggle_def split: option.splits)
qed (simp_all add: nextFrame_def prevFrame_def Let_def overlays_ok_showFrame overlays_ok_scheme
       mapStyleSelect_onchange_def overlays_ok_addOverlays)

lemma store_ok_step: "store_ok s \<Longrightarrow> store_ok (step e s)"
proof (cases e)
  case (Loaded res)
  assume a: "store_ok s"
  show ?thesis
  proof (cases res)
    case (JsonDoc d)
    define s3 where "s3 = s\<lparr> apiHost := host d,
           radarFrames := or_empty (opt_chain (radar d) past)
                            @ or_empty (opt_chain (radar d) nowcast),
           satelliteFrames := or_empty (opt_chain (satellite d) infrared) \<rparr>"
    have "store_ok s3" using a by (simp add: store_ok_def s3_def)
    from store_ok_addOverlays [OF this] show ?thesis
      unfolding Loaded JsonDoc step_Loaded_doc by (simp add: s3_def)
  qed (use a Loaded in \<open>simp_all add: fetchRainViewerData_def\<close>)
next
  case (RainOpacity v)
  then show "store_ok s \<Longrightarrow> ?thesis"
    by (simp add: store_ok_def opacityRainInput_oninput_def setOpacityAll_def Let_def
          fold_opacity_length)
next
  case (CloudOpacity v)
  then show "store_ok s \<Longrightarrow> ?thesis"
    by (simp add: store_ok_def opacityCloudInput_oninput_def setOpacityAll_def Let_def
          fold_opacity_length)
next
  case Play
  then show "store_ok s \<Longrightarrow> ?thesis"
    by (simp add: store_ok_def playToggle_def split: option.splits)
qed (simp_all add: nextFrame_def prevFrame_def Let_def store_ok_showFrame store_ok_scheme
       mapStyleSelect_onchange_def store_ok_addOverlays)

lemma overlays_ok_run: "overlays_ok s \<Longrightarrow> overlays_ok (run evs s)"
  unfolding run_def by (induction evs arbitrary: s) (simp_all add: overlays_ok_step)

lemma store_ok_run: "store_ok s \<Longrightarrow> store_ok (run evs s)"
  unfolding run_def by (induction evs arbitrary: s) (simp_all add: store_ok_step)




lemmas eval_defs = step_Loaded_doc addOverlays_def addRadarOverlay_def addCloudOverlay_def
  removeOverlays_def showFrame_def nextFrame_def prevFrame_def frame_max_def Let_def
  buildRadarTileUrl_def buildSatelliteTileUrl_def arr_get_def arr_set_def show_nat.simps
  opt_chain_def or_empty_def

lemma loaded2_eq:
  "loaded2 = \<lparr> map_layers = {0, 1},
      tileLayers = [\<lparr> url = ''https://t/r0/256/{z}/{x}/{y}/2/1_1.webp'', opacity = 1 \<rparr>,
                    \<lparr> url = ''https://t/s0/256/{z}/{x}/{y}/0/0_0.webp'', opacity = 1 \<rparr>],
      radarOverlayLayers = [Some 0], cloudOverlayLayers = [Some 1],
      currentFrame = Num 0, playInterval = None, intervals = {}, timerSeq = 0,
      radarFrames = [\<lparr> path = ''/r0'', time = 10 \<rparr>, \<lparr> path = ''/r1'', time = 20 \<rparr>],
      satelliteFrames = [\<lparr> path = ''/s0'', time = 10 \<rparr>, \<lparr> path = ''/s1'', time = 20 \<rparr>],
      apiHost = Some ''https://t'', rainOpacity = 1, cloudOpacity = 1,
      optionColorScheme = 2, optionSmoothData = 1, optionSnowColors = 1,
      optionExtension = ''webp'' \<rparr>"
  by (auto simp: loaded2_def eval_defs doc2_def init_def simp del: step.simps)

lemma shown1_eq:
  "shown1 = \<lparr> map_layers = {2, 3},
      tileLayers = [\<lparr> url = ''https://t/r0/256/{z}/{x}/{y}/2/1_1.webp'', opacity = 1 \<rparr>,
                    \<lparr> url = ''https://t/s0/256/{z}/{x}/{y}/0/0_0.webp'', opacity = 1 \<rparr>,
                    \<lparr> url = ''https://t/r1/256/{z}/{x}/{y}/2/1_1.webp'', opacity = 1 \<rparr>,
                    \<lparr> url = ''https://t/s1/256/{z}/{x}/{y}/0/0_0.webp'', opacity = 1 \<rparr>],
      radarOverlayLayers = [Some 0, Some 2], cloudOverlayLayers = [Some 1, Some 3],
      currentFrame = Num 1, playInterval = None, intervals = {}, timerSeq = 0,
      radarFrames = [\<lparr> path = ''/r0'', time = 10 \<rparr>, \<lparr> path = ''/r1'', time = 20 \<rparr>],
      satelliteFrames = [\<lparr> path = ''/s0'', time = 10 \<rparr>, \<lparr> path = ''/s1'', time = 20 \<rparr>],
      apiHost = Some ''https://t'', rainOpacity = 1, cloudOpacity = 1,
      optionColorScheme = 2, optionSmoothData = 1, optionSnowColors = 1,
      optionExtension = ''webp'' \<rparr>"
  unfolding shown1_def loaded2_eq
  by (auto simp: eval_defs)


section \<open>Attaching overlays\<close>

text \<open>
  C10. \<open>addOverlays\<close> is all or nothing over the two layer classes. If the radar frame or
  the satellite frame at the index is missing, the state is returned as it is: no layer is
  created and nothing is attached. Otherwise the state changes in exactly this way. The
  radar layer of the index is the cached one or, if none is cached, a new object at the
  next free address, built from the radar URL of the frame and the rain opacity and
  entered in the radar cache. The satellite layer is the cached one or a new object at
  the next free address after that, built from the satellite URL of the frame and the
  cloud opacity and entered in the satellite cache. Both layers are put on the map, and
  nothing else changes. In a well-formed store the two layers are different objects, and
  a cached layer is the object it was before.
\<close>

theorem addOverlays_all_or_nothing:
  "(frame_at (radarFrames s) i = None \<or> frame_at (satelliteFrames s) i = None
      \<longrightarrow> addOverlays i s = s)
   \<and> (\<forall>n rf sf. index_of i = Some n \<and> frame_at (radarFrames s) i = Some rf
          \<and> frame_at (satelliteFrames s) i = Some sf \<longrightarrow>
        (\<exists>hr hc newr newc.
           hr = (case arr_get (radarOverlayLayers s) n of
                   Some h \<Rightarrow> h | None \<Rightarrow> length (tileLayers s))
         \<and> newr = (case arr_get (radarOverlayLayers s) n of
                     Some h \<Rightarrow> []
                   | None \<Rightarrow> [\<lparr> url = buildRadarTileUrl s rf, opacity = rainOpacity s \<rparr>])
         \<and> hc = (case arr_get (cloudOverlayLayers s) n of
                   Some h \<Rightarrow> h | None \<Rightarrow> length (tileLayers s) + length newr)
         \<and> newc = (case arr_get (cloudOverlayLayers s) n of
                     Some h \<Rightarrow> []
                   | None \<Rightarrow> [\<lparr> url = buildSatelliteTileUrl s sf, opacity = cloudOpacity s \<rparr>])
         \<and> addOverlays i s =
               s\<lparr> map_layers := insert hc (insert hr (map_layers s)),
                  tileLayers := tileLayers s @ newr @ newc,
                  radarOverlayLayers :=
                    (case arr_get (radarOverlayLayers s) n of
                       Some h \<Rightarrow> radarOverlayLayers s
                     | None \<Rightarrow> arr_set (radarOverlayLayers s) n hr),
                  cloudOverlayLayers :=
                    (case arr_get (cloudOverlayLayers s) n of
                       Some h \<Rightarrow> cloudOverlayLayers s
                     | None \<Rightarrow> arr_set (cloudOverlayLayers s) n hc) \<rparr>
         \<and> layer_at (radarOverlayLayers (addOverlays i s)) i = Some hr
         \<and> layer_at (cloudOverlayLayers (addOverlays i s)) i = Some hc
         \<and> hr \<in> map_layers (addOverlays i s) \<and> hc \<in> map_layers (addOverlays i s)
         \<and> (store_ok s \<longrightarrow>
               hr \<noteq> hc
             \<and> hr < length (tileLayers (addOverlays i s))
             \<and> hc < length (tileLayers (addOverlays i s))
             \<and> tileLayers (addOverlays i s) ! hr =
                 (case arr_get (radarOverlayLayers s) n of
                    Some h \<Rightarrow> tileLayers s ! h
                  | None \<Rightarrow> \<lparr> url = buildRadarTileUrl s rf, opacity = rainOpacity s \<rparr>)
             \<and> tileLayers (addOverlays i s) ! hc =
                 (case arr_get (cloudOverlayLayers s) n of
                    Some h \<Rightarrow> tileLayers s ! h
                  | None \<Rightarrow> \<lparr> url = buildSatelliteTileUrl s sf, opacity = cloudOpacity s \<rparr>))))"
proof (intro conjI allI impI)
  assume "frame_at (radarFrames s) i = None \<or> frame_at (satelliteFrames s) i = None"
  then show "addOverlays i s = s" by (rule addOverlays_missing)
next
  fix n rf sf
  assume a: "index_of i = Some n \<and> frame_at (radarFrames s) i = Some rf
          \<and> frame_at (satelliteFrames s) i = Some sf"
  then have n: "index_of i = Some n" "n < length (radarFrames s)" "n < length (satelliteFrames s)"
    "rf = radarFrames s ! n" "sf = satelliteFrames s ! n"
    by (auto simp: frame_at_def split: if_splits)
  have e: "addOverlays i s = addCloudOverlay n (addRadarOverlay n s)"
    using n by (simp add: addOverlays_def)
  have bound: "store_ok s \<Longrightarrow> arr_get (radarOverlayLayers s) n = Some h \<Longrightarrow>
      h < length (tileLayers s) \<and> arr_get (cloudOverlayLayers s) n \<noteq> Some h" for h
    using arr_get_cached [of "radarOverlayLayers s" n h] arr_get_cached [of "cloudOverlayLayers s" n h]
    by (auto simp: store_ok_iff)
  have boundc: "store_ok s \<Longrightarrow> arr_get (cloudOverlayLayers s) n = Some h \<Longrightarrow>
      h < length (tileLayers s)" for h
    using arr_get_cached [of "cloudOverlayLayers s" n h] by (auto simp: store_ok_iff)
  show "\<exists>hr hc newr newc.
           hr = (case arr_get (radarOverlayLayers s) n of
                   Some h \<Rightarrow> h | None \<Rightarrow> length (tileLayers s))
         \<and> newr = (case arr_get (radarOverlayLayers s) n of
                     Some h \<Rightarrow> []
                   | None \<Rightarrow> [\<lparr> url = buildRadarTileUrl s rf, opacity = rainOpacity s \<rparr>])
         \<and> hc = (case arr_get (cloudOverlayLayers s) n of
                   Some h \<Rightarrow> h | None \<Rightarrow> length (tileLayers s) + length newr)
         \<and> newc = (case arr_get (cloudOverlayLayers s) n of
                     Some h \<Rightarrow> []
                   | None \<Rightarrow> [\<lparr> url = buildSatelliteTileUrl s sf, opacity = cloudOpacity s \<rparr>])
         \<and> addOverlays i s =
               s\<lparr> map_layers := insert hc (insert hr (map_layers s)),
                  tileLayers := tileLayers s @ newr @ newc,
                  radarOverlayLayers :=
                    (case arr_get (radarOverlayLayers s) n of
                       Some h \<Rightarrow> radarOverlayLayers s
                     | None \<Rightarrow> arr_set (radarOverlayLayers s) n hr),
                  cloudOverlayLayers :=
                    (case arr_get (cloudOverlayLayers s) n of
                       Some h \<Rightarrow> cloudOverlayLayers s
                     | None \<Rightarrow> arr_set (cloudOverlayLayers s) n hc) \<rparr>
         \<and> layer_at (radarOverlayLayers (addOverlays i s)) i = Some hr
         \<and> layer_at (cloudOverlayLayers (addOverlays i s)) i = Some hc
         \<and> hr \<in> map_layers (addOverlays i s) \<and> hc \<in> map_layers (addOverlays i s)
         \<and> (store_ok s \<longrightarrow>
               hr \<noteq> hc
             \<and> hr < length (tileLayers (addOverlays i s))
             \<and> hc < length (tileLayers (addOverlays i s))
             \<and> tileLayers (addOverlays i s) ! hr =
                 (case arr_get (radarOverlayLayers s) n of
                    Some h \<Rightarrow> tileLayers s ! h
                  | None \<Rightarrow> \<lparr> url = buildRadarTileUrl s rf, opacity = rainOpacity s \<rparr>)
             \<and> tileLayers (addOverlays i s) ! hc =
                 (case arr_get (cloudOverlayLayers s) n of
                    Some h \<Rightarrow> tileLayers s ! h
                  | None \<Rightarrow> \<lparr> url = buildSatelliteTileUrl s sf, opacity = cloudOpacity s \<rparr>))"
  proof (cases "arr_get (radarOverlayLayers s) n")
    case rn: None
    show ?thesis
    proof (cases "arr_get (cloudOverlayLayers s) n")
      case None
      with rn n(1,4,5) show ?thesis
        by (simp add: e addRadarOverlay_def addCloudOverlay_def Let_def arr_get_arr_set
              layer_at_def buildSatelliteTileUrl_def nth_append insert_commute)
    next
      case (Some hc)
      with rn n(1,4,5) boundc [of hc] show ?thesis
        by (auto simp: e addRadarOverlay_def addCloudOverlay_def Let_def arr_get_arr_set
              layer_at_def buildSatelliteTileUrl_def nth_append insert_commute)
    qed
  next
    case rs: (Some hr)
    show ?thesis
    proof (cases "arr_get (cloudOverlayLayers s) n")
      case None
      with rs n(1,4,5) bound [of hr] show ?thesis
        by (auto simp: e addRadarOverlay_def addCloudOverlay_def Let_def arr_get_arr_set
              layer_at_def buildSatelliteTileUrl_def nth_append insert_commute)
    next
      case (Some hc)
      with rs n(1,4,5) bound [of hr] boundc [of hc] show ?thesis
        by (auto simp: e addRadarOverlay_def addCloudOverlay_def Let_def arr_get_arr_set
              layer_at_def insert_commute)
    qed
  qed
qed

text \<open>
  C10 before the load, where no frame exists at index 0; at index 1 of the state loaded
  from two frames of each kind, where both layers are built; and at index 0 of that
  state, where both are cached and on the map.
\<close>

theorem addOverlays_all_or_nothing_witness:
  "frame_at (radarFrames init) (Num 0) = None
   \<and> addOverlays (Num 0) init = init
   \<and> index_of (Num 1) = Some 1
   \<and> frame_at (radarFrames loaded2) (Num 1) = Some \<lparr> path = ''/r1'', time = 20 \<rparr>
   \<and> frame_at (satelliteFrames loaded2) (Num 1) = Some \<lparr> path = ''/s1'', time = 20 \<rparr>
   \<and> store_ok loaded2
   \<and> arr_get (radarOverlayLayers loaded2) 1 = None
   \<and> arr_get (cloudOverlayLayers loaded2) 1 = None
   \<and> layer_at (radarOverlayLayers (addOverlays (Num 1) loaded2)) (Num 1) = Some 2
   \<and> layer_at (cloudOverlayLayers (addOverlays (Num 1) loaded2)) (Num 1) = Some 3
   \<and> map_layers (addOverlays (Num 1) loaded2) = {0, 1, 2, 3}
   \<and> radarOverlayLayers (addOverlays (Num 1) loaded2) = [Some 0, Some 2]
   \<and> cloudOverlayLayers (addOverlays (Num 1) loaded2) = [Some 1, Some 3]
   \<and> length (tileLayers (addOverlays (Num 1) loaded2)) = 4
   \<and> tileLayers (addOverlays (Num 1) loaded2) ! 2 =
        \<lparr> url = ''https://t/r1/256/{z}/{x}/{y}/2/1_1.webp'', opacity = 1 \<rparr>
   \<and> tileLayers (addOverlays (Num 1) loaded2) ! 3 =
        \<lparr> url = ''https://t/s1/256/{z}/{x}/{y}/0/0_0.webp'', opacity = 1 \<rparr>
   \<and> index_of (Num 0) = Some 0
   \<and> arr_get (radarOverlayLayers loaded2) 0 = Some 0
   \<and> arr_get (cloudOverlayLayers loaded2) 0 = Some 1
   \<and> layer_at (radarOverlayLayers (addOverlays (Num 0) loaded2)) (Num 0) = Some 0
   \<and> layer_at (cloudOverlayLayers (addOverlays (Num 0) loaded2)) (Num 0) = Some 1
   \<and> addOverlays (Num 0) loaded2 = loaded2"
proof -
  have a: "frame_at (radarFrames init) (Num 0) = None" by (simp add: frame_at_def init_def)
  have f1: "index_of (Num 1) = Some 1
      \<and> frame_at (radarFrames loaded2) (Num 1) = Some \<lparr> path = ''/r1'', time = 20 \<rparr>
      \<and> frame_at (satelliteFrames loaded2) (Num 1) = Some \<lparr> path = ''/s1'', time = 20 \<rparr>"
    by (simp add: frame_at_def loaded2_fields)
  have f0: "index_of (Num 0) = Some 0
      \<and> frame_at (radarFrames loaded2) (Num 0) = Some \<lparr> path = ''/r0'', time = 10 \<rparr>
      \<and> frame_at (satelliteFrames loaded2) (Num 0) = Some \<lparr> path = ''/s0'', time = 10 \<rparr>"
    by (simp add: frame_at_def loaded2_fields)
  have ok: "store_ok loaded2" by (simp add: loaded2_eq store_ok_def)
  have c: "arr_get (radarOverlayLayers loaded2) 1 = None"
    "arr_get (cloudOverlayLayers loaded2) 1 = None"
    "arr_get (radarOverlayLayers loaded2) 0 = Some 0"
    "arr_get (cloudOverlayLayers loaded2) 0 = Some 1"
    "map_layers loaded2 = {0, 1}" "length (tileLayers loaded2) = 2"
    "radarOverlayLayers loaded2 = [Some 0]" "cloudOverlayLayers loaded2 = [Some 1]"
    by (simp_all add: loaded2_eq arr_get_def)
  have u: "buildRadarTileUrl loaded2 \<lparr> path = ''/r1'', time = 20 \<rparr>
             = ''https://t/r1/256/{z}/{x}/{y}/2/1_1.webp''"
    "buildSatelliteTileUrl loaded2 \<lparr> path = ''/s1'', time = 20 \<rparr>
             = ''https://t/s1/256/{z}/{x}/{y}/0/0_0.webp''"
    "rainOpacity loaded2 = 1" "cloudOpacity loaded2 = 1"
    by (simp_all add: loaded2_eq buildRadarTileUrl_def buildSatelliteTileUrl_def show_nat.simps)
  note t0 = addOverlays_all_or_nothing [of init "Num 0", THEN conjunct1]
  note t1 = addOverlays_all_or_nothing [of loaded2 "Num 1", THEN conjunct2, rule_format, OF f1]
  note t2 = addOverlays_all_or_nothing [of loaded2 "Num 0", THEN conjunct2, rule_format, OF f0]
  have r0: "addOverlays (Num 0) init = init" using t0 a by simp
  from t1 have e1: "addOverlays (Num 1) loaded2 =
      loaded2\<lparr> map_layers := {3, 2, 0, 1},
        tileLayers := tileLayers loaded2 @
          [\<lparr> url = ''https://t/r1/256/{z}/{x}/{y}/2/1_1.webp'', opacity = 1 \<rparr>,
           \<lparr> url = ''https://t/s1/256/{z}/{x}/{y}/0/0_0.webp'', opacity = 1 \<rparr>],
        radarOverlayLayers := [Some 0, Some 2], cloudOverlayLayers := [Some 1, Some 3] \<rparr>"
    by (simp add: c u arr_get_def arr_set_def numeral_3_eq_3 numeral_2_eq_2)
  have r1: "layer_at (radarOverlayLayers (addOverlays (Num 1) loaded2)) (Num 1) = Some 2"
    "layer_at (cloudOverlayLayers (addOverlays (Num 1) loaded2)) (Num 1) = Some 3"
    "tileLayers (addOverlays (Num 1) loaded2) ! 2 =
        \<lparr> url = ''https://t/r1/256/{z}/{x}/{y}/2/1_1.webp'', opacity = 1 \<rparr>"
    "tileLayers (addOverlays (Num 1) loaded2) ! 3 =
        \<lparr> url = ''https://t/s1/256/{z}/{x}/{y}/0/0_0.webp'', opacity = 1 \<rparr>"
    unfolding e1 by (simp_all add: loaded2_eq layer_at_def arr_get_def)
  have r1': "map_layers (addOverlays (Num 1) loaded2) = {0, 1, 2, 3}"
    "radarOverlayLayers (addOverlays (Num 1) loaded2) = [Some 0, Some 2]"
    "cloudOverlayLayers (addOverlays (Num 1) loaded2) = [Some 1, Some 3]"
    "length (tileLayers (addOverlays (Num 1) loaded2)) = 4"
    unfolding e1 by (auto simp: loaded2_eq)
  from t2 have e2': "addOverlays (Num 0) loaded2 =
      loaded2\<lparr> map_layers := insert 1 (insert 0 (map_layers loaded2)),
        tileLayers := tileLayers loaded2 @ [] @ [],
        radarOverlayLayers := radarOverlayLayers loaded2,
        cloudOverlayLayers := cloudOverlayLayers loaded2 \<rparr>"
    by (simp add: c(3,4))
  have e2: "addOverlays (Num 0) loaded2 = loaded2"
    unfolding e2' by (auto simp: loaded2_eq)
  have r2: "layer_at (radarOverlayLayers (addOverlays (Num 0) loaded2)) (Num 0) = Some 0"
    "layer_at (cloudOverlayLayers (addOverlays (Num 0) loaded2)) (Num 0) = Some 1"
    unfolding e2 by (simp_all add: loaded2_eq layer_at_def arr_get_def)
  show ?thesis using a r0 f1 f0 ok c(1-4) r1 r1' r2 e2 by simp
qed

section \<open>The layer caches\<close>

text \<open>
  C4. Asking for the overlays of a frame a second time changes nothing: \<open>addOverlays\<close> is
  idempotent, a layer found in a cache is the one returned, and when both caches hold a
  layer for the index no layer is constructed. In every state reachable from the initial
  one, each overlay on the map is the cached layer of its class for the current frame, so
  that no second layer of a class and index is alive beside the cached one.
\<close>

theorem overlay_cache_reuse:
  "addOverlays i (addOverlays i s) = addOverlays i s
   \<and> (\<forall>h. layer_at (radarOverlayLayers s) i = Some h
          \<longrightarrow> layer_at (radarOverlayLayers (addOverlays i s)) i = Some h)
   \<and> (\<forall>h. layer_at (cloudOverlayLayers s) i = Some h
          \<longrightarrow> layer_at (cloudOverlayLayers (addOverlays i s)) i = Some h)
   \<and> (layer_at (radarOverlayLayers s) i \<noteq> None \<and> layer_at (cloudOverlayLayers s) i \<noteq> None
        \<longrightarrow> tileLayers (addOverlays i s) = tileLayers s)
   \<and> overlays_ok (run evs init)"
proof -
  have "layer_at (radarOverlayLayers (addOverlays i s)) i = Some h"
    if "layer_at (radarOverlayLayers s) i = Some h" for h
    using that by (auto simp: layer_at_def addOverlays_keeps_radar split: option.splits)
  moreover have "layer_at (cloudOverlayLayers (addOverlays i s)) i = Some h"
    if "layer_at (cloudOverlayLayers s) i = Some h" for h
    using that by (auto simp: layer_at_def addOverlays_keeps_cloud split: option.splits)
  ultimately show ?thesis
    using addOverlays_idem [of i s] addOverlays_no_construction(1) [of s i]
      overlays_ok_run [OF overlays_ok_init, of evs]
    by blast
qed

text \<open>
  C4 at frame 0 of the state loaded from two frames of each kind, and for the run load,
  next, scheme change.
\<close>

theorem overlay_cache_reuse_witness:
  "layer_at (radarOverlayLayers loaded2) (Num 0) = Some 0
   \<and> layer_at (cloudOverlayLayers loaded2) (Num 0) = Some 1
   \<and> layer_at (radarOverlayLayers (addOverlays (Num 0) loaded2)) (Num 0) = Some 0
   \<and> layer_at (cloudOverlayLayers (addOverlays (Num 0) loaded2)) (Num 0) = Some 1
   \<and> tileLayers (addOverlays (Num 0) loaded2) = tileLayers loaded2
   \<and> overlays_ok (run [Loaded (JsonDoc doc2), Next, RadarStyle ''titan''] init)"
proof -
  have a: "layer_at (radarOverlayLayers loaded2) (Num 0) = Some 0"
    "layer_at (cloudOverlayLayers loaded2) (Num 0) = Some 1"
    by (simp_all add: loaded2_eq layer_at_def arr_get_def)
  show ?thesis
    using overlay_cache_reuse [of "Num 0" loaded2 "[Loaded (JsonDoc doc2), Next, RadarStyle ''titan'']"] a
    by simp
qed

section \<open>Opacity\<close>

text \<open>
  C6. Setting the opacity of a layer class stores the value and gives it to every cached
  layer of the class, whether its frame is displayed or not, leaving cache and URLs as
  they are; showing a cached frame afterwards puts that same layer on the map with the
  new opacity. The layer store is assumed well formed, as it is in every reachable state.
\<close>

theorem opacity_reaches_every_cached_layer:
  fixes s :: state and v :: real
  defines "r \<equiv> opacityRainInput_oninput v s"
    and "c \<equiv> opacityCloudInput_oninput v s"
  assumes ok: "store_ok s"
  shows "rainOpacity r = v \<and> radarOverlayLayers r = radarOverlayLayers s
     \<and> (\<forall>n h. arr_get (radarOverlayLayers s) n = Some h \<longrightarrow>
           opacity (tileLayers r ! h) = v \<and> url (tileLayers r ! h) = url (tileLayers s ! h)
           \<and> (n < frame_max s \<longrightarrow>
                 h \<in> map_layers (showFrame (Num (int n)) r)
                 \<and> opacity (tileLayers (showFrame (Num (int n)) r) ! h) = v))
     \<and> cloudOpacity c = v \<and> cloudOverlayLayers c = cloudOverlayLayers s
     \<and> (\<forall>n h. arr_get (cloudOverlayLayers s) n = Some h \<longrightarrow>
           opacity (tileLayers c ! h) = v \<and> url (tileLayers c ! h) = url (tileLayers s ! h)
           \<and> (n < frame_max s \<longrightarrow>
                 h \<in> map_layers (showFrame (Num (int n)) c)
                 \<and> opacity (tileLayers (showFrame (Num (int n)) c) ! h) = v))"
proof -
  have rf: "rainOpacity r = v" "radarOverlayLayers r = radarOverlayLayers s"
    "cloudOverlayLayers r = cloudOverlayLayers s"
    "radarFrames r = radarFrames s" "satelliteFrames r = satelliteFrames s"
    "length (tileLayers r) = length (tileLayers s)"
    by (simp_all add: r_def opacityRainInput_oninput_def Let_def setOpacityAll_def
          fold_opacity_length)
  have cf: "cloudOpacity c = v" "cloudOverlayLayers c = cloudOverlayLayers s"
    "radarOverlayLayers c = radarOverlayLayers s"
    "radarFrames c = radarFrames s" "satelliteFrames c = satelliteFrames s"
    "length (tileLayers c) = length (tileLayers s)"
    by (simp_all add: c_def opacityCloudInput_oninput_def Let_def setOpacityAll_def
          fold_opacity_length)
  have shown: "h \<in> map_layers (showFrame (Num (int n)) t)
      \<and> tileLayers (showFrame (Num (int n)) t) ! h = tileLayers t ! h"
    if "arr_get (radarOverlayLayers t) n = Some h \<or> arr_get (cloudOverlayLayers t) n = Some h"
      "n < length (radarFrames t)" "n < length (satelliteFrames t)"
      "h < length (tileLayers t)" for t n h
  proof -
    define t2 where "t2 = (removeOverlays (currentFrame t) t)\<lparr> currentFrame := Num (int n) \<rparr>"
    have sf: "showFrame (Num (int n)) t = addOverlays (Num (int n)) t2"
      by (simp add: showFrame_def Let_def t2_def)
    have t2: "radarOverlayLayers t2 = radarOverlayLayers t"
      "cloudOverlayLayers t2 = cloudOverlayLayers t" "tileLayers t2 = tileLayers t"
      "radarFrames t2 = radarFrames t" "satelliteFrames t2 = satelliteFrames t"
      by (simp_all add: t2_def removeOverlays_fields)
    have "frame_at (radarFrames t2) (Num (int n)) = Some (radarFrames t ! n)"
      "frame_at (satelliteFrames t2) (Num (int n)) = Some (satelliteFrames t ! n)"
      using that by (simp_all add: frame_at_def t2)
    from addOverlays_present [OF this] obtain hr hc where
      p: "layer_at (radarOverlayLayers (addOverlays (Num (int n)) t2)) (Num (int n)) = Some hr"
      "layer_at (cloudOverlayLayers (addOverlays (Num (int n)) t2)) (Num (int n)) = Some hc"
      "hr \<in> map_layers (addOverlays (Num (int n)) t2)"
      "hc \<in> map_layers (addOverlays (Num (int n)) t2)"
      by blast
    have "h = hr \<or> h = hc"
      using that(1) p(1,2) addOverlays_keeps_radar [of t2 n h "Num (int n)"]
        addOverlays_keeps_cloud [of t2 n h "Num (int n)"]
      by (auto simp: layer_at_def t2)
    with p have "h \<in> map_layers (showFrame (Num (int n)) t)" by (auto simp: sf)
    moreover have "tileLayers (showFrame (Num (int n)) t) ! h = tileLayers t ! h"
      using that(4) by (simp add: sf addOverlays_old_layer t2)
    ultimately show ?thesis by simp
  qed
  have bound: "h < length (tileLayers s)"
    if "arr_get (radarOverlayLayers s) n = Some h \<or> arr_get (cloudOverlayLayers s) n = Some h"
    for n h
    using that ok arr_get_cached [of _ n h] by (auto simp: store_ok_iff)
  have rain: "opacity (tileLayers r ! h) = v \<and> url (tileLayers r ! h) = url (tileLayers s ! h)
      \<and> (n < frame_max s \<longrightarrow>
            h \<in> map_layers (showFrame (Num (int n)) r)
            \<and> opacity (tileLayers (showFrame (Num (int n)) r) ! h) = v)"
    if a: "arr_get (radarOverlayLayers s) n = Some h" for n h
  proof -
    have b: "h < length (tileLayers s)" using bound a by blast
    have o: "opacity (tileLayers r ! h) = v"
      using arr_get_cached [OF a] b
      by (simp add: r_def opacityRainInput_oninput_def Let_def setOpacityAll_def
            fold_opacity_set)
    have u: "url (tileLayers r ! h) = url (tileLayers s ! h)"
      by (simp add: r_def opacityRainInput_oninput_def Let_def setOpacityAll_def
            fold_opacity_url)
    have "h \<in> map_layers (showFrame (Num (int n)) r)
        \<and> opacity (tileLayers (showFrame (Num (int n)) r) ! h) = v" if "n < frame_max s"
      using shown [of r n h] a b that o by (simp add: rf frame_max_def)
    with o u show ?thesis by blast
  qed
  have cloud: "opacity (tileLayers c ! h) = v \<and> url (tileLayers c ! h) = url (tileLayers s ! h)
      \<and> (n < frame_max s \<longrightarrow>
            h \<in> map_layers (showFrame (Num (int n)) c)
            \<and> opacity (tileLayers (showFrame (Num (int n)) c) ! h) = v)"
    if a: "arr_get (cloudOverlayLayers s) n = Some h" for n h
  proof -
    have b: "h < length (tileLayers s)" using bound a by blast
    have o: "opacity (tileLayers c ! h) = v"
      using arr_get_cached [OF a] b
      by (simp add: c_def opacityCloudInput_oninput_def Let_def setOpacityAll_def
            fold_opacity_set)
    have u: "url (tileLayers c ! h) = url (tileLayers s ! h)"
      by (simp add: c_def opacityCloudInput_oninput_def Let_def setOpacityAll_def
            fold_opacity_url)
    have "h \<in> map_layers (showFrame (Num (int n)) c)
        \<and> opacity (tileLayers (showFrame (Num (int n)) c) ! h) = v" if "n < frame_max s"
      using shown [of c n h] a b that o by (simp add: cf frame_max_def)
    with o u show ?thesis by blast
  qed
  show ?thesis using rf(1,2) cf(1,2) rain cloud by blast
qed


text \<open>
  C6 for the opacity \<open>0.4\<close> in the state that shows frame 1 and has frame 0 cached but
  not displayed.
\<close>

theorem opacity_reaches_every_cached_layer_witness:
  "store_ok shown1
   \<and> arr_get (radarOverlayLayers shown1) 0 = Some 0 \<and> 0 \<notin> map_layers shown1
   \<and> 0 < frame_max shown1
   \<and> opacity (tileLayers (opacityRainInput_oninput (2 / 5) shown1) ! 0) = 2 / 5
   \<and> 0 \<in> map_layers (showFrame (Num 0) (opacityRainInput_oninput (2 / 5) shown1))
   \<and> opacity (tileLayers (showFrame (Num 0) (opacityRainInput_oninput (2 / 5) shown1)) ! 0) = 2 / 5
   \<and> arr_get (cloudOverlayLayers shown1) 0 = Some 1 \<and> 1 \<notin> map_layers shown1
   \<and> opacity (tileLayers (opacityCloudInput_oninput (2 / 5) shown1) ! 1) = 2 / 5
   \<and> 1 \<in> map_layers (showFrame (Num 0) (opacityCloudInput_oninput (2 / 5) shown1))
   \<and> opacity (tileLayers (showFrame (Num 0) (opacityCloudInput_oninput (2 / 5) shown1)) ! 1) = 2 / 5"
proof -
  have ok: "store_ok shown1" by (simp add: shown1_eq store_ok_def)
  have a: "arr_get (radarOverlayLayers shown1) 0 = Some 0"
    "arr_get (cloudOverlayLayers shown1) 0 = Some 1"
    "0 \<notin> map_layers shown1" "1 \<notin> map_layers shown1" "0 < frame_max shown1"
    by (simp_all add: shown1_eq arr_get_def frame_max_def)
  note t = opacity_reaches_every_cached_layer [OF ok, of "2 / 5"]
  from t a have "opacity (tileLayers (opacityRainInput_oninput (2 / 5) shown1) ! 0) = 2 / 5
    \<and> 0 \<in> map_layers (showFrame (Num (int 0)) (opacityRainInput_oninput (2 / 5) shown1))
    \<and> opacity (tileLayers (showFrame (Num (int 0)) (opacityRainInput_oninput (2 / 5) shown1)) ! 0)
        = 2 / 5"
    by blast
  moreover from t a have "opacity (tileLayers (opacityCloudInput_oninput (2 / 5) shown1) ! 1) = 2 / 5
    \<and> 1 \<in> map_layers (showFrame (Num (int 0)) (opacityCloudInput_oninput (2 / 5) shown1))
    \<and> opacity (tileLayers (showFrame (Num (int 0)) (opacityCloudInput_oninput (2 / 5) shown1)) ! 1)
        = 2 / 5"
    by blast
  ultimately show ?thesis using ok a by simp
qed

section \<open>The empty catalog\<close>

text \<open>
  C2, as amended. With an empty catalog \<open>nextFrame\<close> and \<open>prevFrame\<close> create no layer and
  attach no overlay: caches, layer store, frame lists, options and timer stay as they are
  and the map can only lose overlays. \<open>playToggle\<close> does not look at the catalog: it starts
  a timer when none is recorded and cancels the recorded one otherwise, and changes
  nothing but the timer.
\<close>

theorem empty_catalog_steps_build_nothing:
  assumes "frame_max s = 0"
  shows "nextFrame s = s\<lparr> map_layers := map_layers (nextFrame s),
                           currentFrame := currentFrame (nextFrame s) \<rparr>
     \<and> prevFrame s = s\<lparr> map_layers := map_layers (prevFrame s),
                          currentFrame := currentFrame (prevFrame s) \<rparr>
     \<and> map_layers (nextFrame s) \<subseteq> map_layers s
     \<and> map_layers (prevFrame s) \<subseteq> map_layers s
     \<and> playToggle s = s\<lparr> timerSeq := timerSeq (playToggle s),
                           intervals := intervals (playToggle s),
                           playInterval := playInterval (playToggle s) \<rparr>
     \<and> (playInterval s = None \<longrightarrow>
          playInterval (playToggle s) = Some (Suc (timerSeq s))
          \<and> intervals (playToggle s) = insert (Suc (timerSeq s)) (intervals s))
     \<and> (\<forall>t. playInterval s = Some t \<longrightarrow>
          playInterval (playToggle s) = None \<and> intervals (playToggle s) = intervals s - {t})"
proof -
  have sf: "showFrame j s = (removeOverlays (currentFrame s) s)\<lparr> currentFrame := j \<rparr>" for j
  proof -
    have "frame_at (radarFrames s) j = None \<or> frame_at (satelliteFrames s) j = None"
      using assms by (auto simp: frame_max_def frame_at_def split: option.splits)
    then have "frame_at (radarFrames ((removeOverlays (currentFrame s) s)\<lparr> currentFrame := j \<rparr>)) j = None
      \<or> frame_at (satelliteFrames ((removeOverlays (currentFrame s) s)\<lparr> currentFrame := j \<rparr>)) j = None"
      by (simp add: removeOverlays_fields)
    from addOverlays_missing [OF this] show ?thesis by (simp add: showFrame_def Let_def)
  qed
  have "showFrame j s = s\<lparr> map_layers := map_layers (showFrame j s),
                            currentFrame := currentFrame (showFrame j s) \<rparr>
      \<and> map_layers (showFrame j s) \<subseteq> map_layers s" for j
    unfolding sf using removeOverlays_subset [of "currentFrame s" s]
    by (subst removeOverlays_eq) simp
  then have "nextFrame s = s\<lparr> map_layers := map_layers (nextFrame s),
                           currentFrame := currentFrame (nextFrame s) \<rparr>
     \<and> prevFrame s = s\<lparr> map_layers := map_layers (prevFrame s),
                          currentFrame := currentFrame (prevFrame s) \<rparr>
     \<and> map_layers (nextFrame s) \<subseteq> map_layers s
     \<and> map_layers (prevFrame s) \<subseteq> map_layers s"
    by (simp add: nextFrame_def prevFrame_def Let_def)
  moreover have "playToggle s = s\<lparr> timerSeq := timerSeq (playToggle s),
                           intervals := intervals (playToggle s),
                           playInterval := playInterval (playToggle s) \<rparr>"
    by (simp add: playToggle_def split: option.splits)
  moreover have "playInterval s = None \<longrightarrow>
          playInterval (playToggle s) = Some (Suc (timerSeq s))
          \<and> intervals (playToggle s) = insert (Suc (timerSeq s)) (intervals s)"
    by (simp add: playToggle_def)
  moreover have "\<forall>t. playInterval s = Some t \<longrightarrow>
          playInterval (playToggle s) = None \<and> intervals (playToggle s) = intervals s - {t}"
    by (simp add: playToggle_def)
  ultimately show ?thesis by blast
qed

text \<open>The amended C2 in the initial state, and for a second toggle after the first.\<close>

theorem empty_catalog_steps_build_nothing_witness:
  "frame_max init = 0
   \<and> nextFrame init = init\<lparr> map_layers := map_layers (nextFrame init),
                              currentFrame := currentFrame (nextFrame init) \<rparr>
   \<and> map_layers (nextFrame init) \<subseteq> map_layers init
   \<and> map_layers (prevFrame init) \<subseteq> map_layers init
   \<and> playInterval init = None
   \<and> playInterval (playToggle init) = Some 1
   \<and> playInterval (playToggle (playToggle init)) = None
   \<and> intervals (playToggle (playToggle init)) = {}"
proof -
  have a: "frame_max init = 0" "playInterval init = None" "timerSeq init = 0" "intervals init = {}"
    by (simp_all add: frame_max_def init_def)
  have b: "frame_max (playToggle init) = 0" by (simp add: frame_max_def playToggle_def init_def)
  from empty_catalog_steps_build_nothing [OF a(1)] a
  have c: "playInterval (playToggle init) = Some 1" "intervals (playToggle init) = {1}"
    by simp_all
  show ?thesis
    using empty_catalog_steps_build_nothing [OF a(1)] empty_catalog_steps_build_nothing [OF b]
      a c
    by simp
qed

text \<open>
  C2 as stated fails in the initial state, where the catalog is empty: \<open>nextFrame\<close> and
  \<open>prevFrame\<close> change the current frame, and \<open>playToggle\<close> starts a timer.
\<close>

theorem empty_catalog_not_noop_counterexample:
  "frame_max init = 0
   \<and> currentFrame (nextFrame init) \<noteq> currentFrame init
   \<and> currentFrame (prevFrame init) \<noteq> currentFrame init
   \<and> playInterval (playToggle init) \<noteq> None
   \<and> intervals (playToggle init) \<noteq> {}"
  by (simp add: nextFrame_fields prevFrame_fields)
     (simp add: frame_max_def init_def playToggle_def)


section \<open>Load completion\<close>


lemma addRadarOverlay_created:
  "arr_get (radarOverlayLayers s) n = None \<Longrightarrow>
     arr_get (radarOverlayLayers (addRadarOverlay n s)) n = Some (length (tileLayers s))
     \<and> tileLayers (addRadarOverlay n s) =
         tileLayers s @ [\<lparr> url = buildRadarTileUrl s (radarFrames s ! n), opacity = rainOpacity s \<rparr>]"
  by (simp add: addRadarOverlay_def Let_def arr_get_arr_set)

lemma addCloudOverlay_created:
  "arr_get (cloudOverlayLayers s) n = None \<Longrightarrow>
     arr_get (cloudOverlayLayers (addCloudOverlay n s)) n = Some (length (tileLayers s))
     \<and> tileLayers (addCloudOverlay n s) =
         tileLayers s @ [\<lparr> url = buildSatelliteTileUrl s (satelliteFrames s ! n),
                            opacity = cloudOpacity s \<rparr>]"
  by (simp add: addCloudOverlay_def Let_def arr_get_arr_set)

lemma build_url_cong:
  "apiHost t = apiHost s \<Longrightarrow> optionExtension t = optionExtension s \<Longrightarrow>
     buildSatelliteTileUrl t fr = buildSatelliteTileUrl s fr"
  "apiHost t = apiHost s \<Longrightarrow> optionExtension t = optionExtension s \<Longrightarrow>
   optionColorScheme t = optionColorScheme s \<Longrightarrow> optionSmoothData t = optionSmoothData s \<Longrightarrow>
   optionSnowColors t = optionSnowColors s \<Longrightarrow>
     buildRadarTileUrl t fr = buildRadarTileUrl s fr"
  by (simp_all add: buildSatelliteTileUrl_def buildRadarTileUrl_def)

lemma addRadarOverlay_opts:
  "apiHost (addRadarOverlay n s) = apiHost s"
  "optionExtension (addRadarOverlay n s) = optionExtension s"
  "cloudOpacity (addRadarOverlay n s) = cloudOpacity s"
  by (simp_all add: addRadarOverlay_def Let_def split: option.splits)

lemma addOverlays_created:
  assumes n: "index_of i = Some n" "n < length (radarFrames s)" "n < length (satelliteFrames s)"
  shows "arr_get (radarOverlayLayers s) n = None \<Longrightarrow>
      arr_get (radarOverlayLayers (addOverlays i s)) n = Some (length (tileLayers s))
      \<and> tileLayers (addOverlays i s) ! length (tileLayers s) =
          \<lparr> url = buildRadarTileUrl s (radarFrames s ! n), opacity = rainOpacity s \<rparr>"
    and "arr_get (cloudOverlayLayers s) n = None \<Longrightarrow>
      \<exists>hc. arr_get (cloudOverlayLayers (addOverlays i s)) n = Some hc
        \<and> length (tileLayers s) \<le> hc
        \<and> tileLayers (addOverlays i s) ! hc =
          \<lparr> url = buildSatelliteTileUrl s (satelliteFrames s ! n), opacity = cloudOpacity s \<rparr>"
proof -
  have e: "addOverlays i s = addCloudOverlay n (addRadarOverlay n s)"
    using n by (simp add: addOverlays_def)
  show "arr_get (radarOverlayLayers (addOverlays i s)) n = Some (length (tileLayers s))
      \<and> tileLayers (addOverlays i s) ! length (tileLayers s) =
          \<lparr> url = buildRadarTileUrl s (radarFrames s ! n), opacity = rainOpacity s \<rparr>"
    if "arr_get (radarOverlayLayers s) n = None"
    using addRadarOverlay_created [OF that]
    by (simp add: e addCloudOverlay_fields addCloudOverlay_old_layer)
  show "\<exists>hc. arr_get (cloudOverlayLayers (addOverlays i s)) n = Some hc
        \<and> length (tileLayers s) \<le> hc
        \<and> tileLayers (addOverlays i s) ! hc =
          \<lparr> url = buildSatelliteTileUrl s (satelliteFrames s ! n), opacity = cloudOpacity s \<rparr>"
    if "arr_get (cloudOverlayLayers s) n = None"
  proof -
    have "arr_get (cloudOverlayLayers (addRadarOverlay n s)) n = None"
      using that by (simp add: addRadarOverlay_fields)
    from addCloudOverlay_created [OF this] show ?thesis
      using addRadarOverlay_length [of s n]
      by (simp add: e addRadarOverlay_fields addRadarOverlay_opts
            build_url_cong(1) [of "addRadarOverlay n s" s])
  qed
qed

text \<open>
  C8, as amended. When the load completes while the current frame is 0, its initial
  value, the current frame stays 0. If both frame lists are non-empty, the radar and the
  satellite layer of frame 0 are cached and on the map afterwards, a layer that was not
  cached being created with the URL and the opacity of its class. If at least one of the
  two lists is empty, nothing is created and nothing is attached. Starting with no
  overlay on the map, the map stays without overlays exactly when at least one of the
  lists is empty.
\<close>

theorem load_shows_first_frame:
  assumes "currentFrame s = Num 0"
  shows "\<exists>s'. fetchRainViewerData (JsonDoc d) s = Inr s' \<and> currentFrame s' = Num 0
     \<and> (radarFrames s' \<noteq> [] \<and> satelliteFrames s' \<noteq> [] \<longrightarrow>
          (\<exists>hr hc. arr_get (radarOverlayLayers s') 0 = Some hr
             \<and> arr_get (cloudOverlayLayers s') 0 = Some hc
             \<and> hr \<in> map_layers s' \<and> hc \<in> map_layers s'
             \<and> (arr_get (radarOverlayLayers s) 0 = None \<longrightarrow>
                  length (tileLayers s) \<le> hr
                  \<and> tileLayers s' ! hr =
                      \<lparr> url = buildRadarTileUrl s' (radarFrames s' ! 0),
                         opacity = rainOpacity s' \<rparr>)
             \<and> (arr_get (cloudOverlayLayers s) 0 = None \<longrightarrow>
                  length (tileLayers s) \<le> hc
                  \<and> tileLayers s' ! hc =
                      \<lparr> url = buildSatelliteTileUrl s' (satelliteFrames s' ! 0),
                         opacity = cloudOpacity s' \<rparr>)))
     \<and> (radarFrames s' = [] \<or> satelliteFrames s' = [] \<longrightarrow>
          map_layers s' = map_layers s \<and> tileLayers s' = tileLayers s
          \<and> radarOverlayLayers s' = radarOverlayLayers s
          \<and> cloudOverlayLayers s' = cloudOverlayLayers s)
     \<and> (map_layers s = {} \<longrightarrow>
          (map_layers s' = {} \<longleftrightarrow> radarFrames s' = [] \<or> satelliteFrames s' = []))"
proof -
  define s3 where "s3 = s\<lparr> apiHost := host d,
           radarFrames := or_empty (opt_chain (radar d) past)
                            @ or_empty (opt_chain (radar d) nowcast),
           satelliteFrames := or_empty (opt_chain (satellite d) infrared) \<rparr>"
  define s' where "s' = addOverlays (Num 0) s3"
  have f: "fetchRainViewerData (JsonDoc d) s = Inr s'"
    using assms by (simp add: fetchRainViewerData_def Let_def s'_def s3_def)
  have s3: "map_layers s3 = map_layers s" "tileLayers s3 = tileLayers s"
    "radarOverlayLayers s3 = radarOverlayLayers s" "cloudOverlayLayers s3 = cloudOverlayLayers s"
    "currentFrame s3 = Num 0"
    using assms by (simp_all add: s3_def)
  have fr: "radarFrames s' = radarFrames s3" "satelliteFrames s' = satelliteFrames s3"
    "currentFrame s' = Num 0"
    by (simp_all add: s'_def addOverlays_fields s3)
  have u: "buildRadarTileUrl s' x = buildRadarTileUrl s3 x"
    "buildSatelliteTileUrl s' x = buildSatelliteTileUrl s3 x"
    "rainOpacity s' = rainOpacity s3" "cloudOpacity s' = cloudOpacity s3" for x
    by (simp_all add: s'_def buildRadarTileUrl_def buildSatelliteTileUrl_def addOverlays_fields)
  have empty: "map_layers s' = map_layers s \<and> tileLayers s' = tileLayers s
      \<and> radarOverlayLayers s' = radarOverlayLayers s
      \<and> cloudOverlayLayers s' = cloudOverlayLayers s"
    if "radarFrames s' = [] \<or> satelliteFrames s' = []"
  proof -
    have "frame_at (radarFrames s3) (Num 0) = None \<or> frame_at (satelliteFrames s3) (Num 0) = None"
      using that fr by (auto simp: frame_at_def)
    then have "addOverlays (Num 0) s3 = s3" by (rule addOverlays_missing)
    then show ?thesis by (simp add: s'_def s3)
  qed
  have full: "\<exists>hr hc. arr_get (radarOverlayLayers s') 0 = Some hr
             \<and> arr_get (cloudOverlayLayers s') 0 = Some hc
             \<and> hr \<in> map_layers s' \<and> hc \<in> map_layers s'
             \<and> (arr_get (radarOverlayLayers s) 0 = None \<longrightarrow>
                  length (tileLayers s) \<le> hr
                  \<and> tileLayers s' ! hr =
                      \<lparr> url = buildRadarTileUrl s' (radarFrames s' ! 0),
                         opacity = rainOpacity s' \<rparr>)
             \<and> (arr_get (cloudOverlayLayers s) 0 = None \<longrightarrow>
                  length (tileLayers s) \<le> hc
                  \<and> tileLayers s' ! hc =
                      \<lparr> url = buildSatelliteTileUrl s' (satelliteFrames s' ! 0),
                         opacity = cloudOpacity s' \<rparr>)"
    if ne: "radarFrames s' \<noteq> []" "satelliteFrames s' \<noteq> []"
  proof -
    have n: "index_of (Num 0) = Some 0" "0 < length (radarFrames s3)"
      "0 < length (satelliteFrames s3)"
      using ne fr by simp_all
    then have "frame_at (radarFrames s3) (Num 0) = Some (radarFrames s3 ! 0)"
      "frame_at (satelliteFrames s3) (Num 0) = Some (satelliteFrames s3 ! 0)"
      by (simp_all add: frame_at_def)
    from addOverlays_present [OF this] obtain hr hc where
      p: "arr_get (radarOverlayLayers s') 0 = Some hr" "arr_get (cloudOverlayLayers s') 0 = Some hc"
      "hr \<in> map_layers s'" "hc \<in> map_layers s'"
      by (auto simp: s'_def layer_at_def)
    have "length (tileLayers s) \<le> hr
        \<and> tileLayers s' ! hr = \<lparr> url = buildRadarTileUrl s' (radarFrames s' ! 0),
                                   opacity = rainOpacity s' \<rparr>"
      if "arr_get (radarOverlayLayers s) 0 = None"
      using addOverlays_created(1) [OF n] that p(1) by (simp add: s3 u fr flip: s'_def)
    moreover have "length (tileLayers s) \<le> hc
        \<and> tileLayers s' ! hc = \<lparr> url = buildSatelliteTileUrl s' (satelliteFrames s' ! 0),
                                   opacity = cloudOpacity s' \<rparr>"
      if "arr_get (cloudOverlayLayers s) 0 = None"
      using addOverlays_created(2) [OF n] that p(2) by (auto simp: s3 u fr simp flip: s'_def)
    ultimately show ?thesis using p by (intro exI [of _ hr] exI [of _ hc]) simp
  qed
  have iff: "map_layers s' = {} \<longleftrightarrow> radarFrames s' = [] \<or> satelliteFrames s' = []"
    if m: "map_layers s = {}"
  proof (cases "radarFrames s' = [] \<or> satelliteFrames s' = []")
    case True
    with empty m show ?thesis by simp
  next
    case False
    with full obtain hr where "hr \<in> map_layers s'" by blast
    with False show ?thesis by blast
  qed
  show ?thesis
    by (intro exI [of _ s'] conjI impI) (use f fr(3) full empty iff in simp_all)
qed


lemma fetch_doc2: "fetchRainViewerData (JsonDoc doc2) init = Inr loaded2"
  by (simp add: loaded2_def fetchRainViewerData_def Let_def)


lemma fetch_radar_only: "fetchRainViewerData (JsonDoc doc_radar_only) init = Inr loaded_radar_only"
  by (simp add: loaded_radar_only_def fetchRainViewerData_def Let_def)

lemma loaded_radar_only_eq:
  "loaded_radar_only = init\<lparr> apiHost := Some ''https://t'',
                             radarFrames := [\<lparr> path = ''/r0'', time = 10 \<rparr>] \<rparr>"
  by (simp add: loaded_radar_only_def eval_defs doc_radar_only_def init_def del: step.simps)

text \<open>
  The amended C8 in the initial state, for a document with two frames of each kind and
  for one with a radar frame but no satellite frames.
\<close>

theorem load_shows_first_frame_witness:
  "currentFrame init = Num 0 \<and> map_layers init = {}
   \<and> arr_get (radarOverlayLayers init) 0 = None \<and> arr_get (cloudOverlayLayers init) 0 = None
   \<and> fetchRainViewerData (JsonDoc doc2) init = Inr loaded2
   \<and> radarFrames loaded2 \<noteq> [] \<and> satelliteFrames loaded2 \<noteq> []
   \<and> currentFrame loaded2 = Num 0 \<and> map_layers loaded2 \<noteq> {}
   \<and> (\<exists>hr hc. arr_get (radarOverlayLayers loaded2) 0 = Some hr
          \<and> arr_get (cloudOverlayLayers loaded2) 0 = Some hc
          \<and> hr \<in> map_layers loaded2 \<and> hc \<in> map_layers loaded2
          \<and> tileLayers loaded2 ! hr =
               \<lparr> url = ''https://t/r0/256/{z}/{x}/{y}/2/1_1.webp'', opacity = 1 \<rparr>
          \<and> tileLayers loaded2 ! hc =
               \<lparr> url = ''https://t/s0/256/{z}/{x}/{y}/0/0_0.webp'', opacity = 1 \<rparr>)
   \<and> fetchRainViewerData (JsonDoc doc_radar_only) init = Inr loaded_radar_only
   \<and> satelliteFrames loaded_radar_only = []
   \<and> map_layers loaded_radar_only = {} \<and> tileLayers loaded_radar_only = []"
proof -
  have h: "currentFrame init = Num 0" "map_layers init = {}"
    "arr_get (radarOverlayLayers init) 0 = None" "arr_get (cloudOverlayLayers init) 0 = None"
    "tileLayers init = []"
    by (simp_all add: init_def arr_get_def)
  have u: "buildRadarTileUrl loaded2 (radarFrames loaded2 ! 0)
             = ''https://t/r0/256/{z}/{x}/{y}/2/1_1.webp''"
    "buildSatelliteTileUrl loaded2 (satelliteFrames loaded2 ! 0)
             = ''https://t/s0/256/{z}/{x}/{y}/0/0_0.webp''"
    "rainOpacity loaded2 = 1" "cloudOpacity loaded2 = 1"
    "radarFrames loaded2 \<noteq> []" "satelliteFrames loaded2 \<noteq> []"
    by (simp_all add: loaded2_eq buildRadarTileUrl_def buildSatelliteTileUrl_def show_nat.simps)
  have e: "satelliteFrames loaded_radar_only = []"
    by (simp add: loaded_radar_only_eq init_def)
  show ?thesis
    using load_shows_first_frame [OF h(1), of doc2]
      load_shows_first_frame [OF h(1), of doc_radar_only]
    by (simp add: fetch_doc2 fetch_radar_only h u e)
qed

text \<open>
  C8 as stated fails. A document with one radar frame and no satellite frames is not
  empty in both lists, yet the load attaches nothing. And the load does not set the
  current frame: after a click on next before the load it is \<open>NaN\<close>, and a load of two
  frames of each kind attaches nothing.
\<close>

theorem load_either_empty_counterexample:
  "radarFrames (step (Loaded (JsonDoc doc_radar_only)) init) \<noteq> []
   \<and> map_layers (step (Loaded (JsonDoc doc_radar_only)) init) = {}
   \<and> tileLayers (step (Loaded (JsonDoc doc_radar_only)) init) = []
   \<and> radarFrames (run [Next, Loaded (JsonDoc doc2)] init) \<noteq> []
   \<and> satelliteFrames (run [Next, Loaded (JsonDoc doc2)] init) \<noteq> []
   \<and> currentFrame (run [Next, Loaded (JsonDoc doc2)] init) = NaN
   \<and> map_layers (run [Next, Loaded (JsonDoc doc2)] init) = {}"
proof -
  have a: "nextFrame init = init\<lparr> currentFrame := NaN \<rparr>"
    by (simp add: eval_defs init_def)
  have b: "run [Next, Loaded (JsonDoc doc2)] init = step (Loaded (JsonDoc doc2)) (nextFrame init)"
    by (simp add: run_def)
  show ?thesis
    unfolding b a loaded_radar_only_def [symmetric] loaded_radar_only_eq
    by (simp add: eval_defs doc2_def init_def del: step.simps)
qed


section \<open>Changing the colour scheme\<close>





lemma radar_urls_ok_iff:
  "radar_urls_ok s \<longleftrightarrow>
     (\<forall>h \<in> set (cached (radarOverlayLayers s)).
        suffix (scheme_suffix s) (url (tileLayers s ! h)))"
  by (simp add: radar_urls_ok_def list_all_iff)

lemma buildRadarTileUrl_suffix:
  "buildRadarTileUrl s fr = (show_host (apiHost s) @ path fr) @ scheme_suffix s"
  by (simp add: buildRadarTileUrl_def scheme_suffix_def show_nat_256)

lemma scheme_suffix_cong:
  "optionColorScheme t = optionColorScheme s \<Longrightarrow> optionSmoothData t = optionSmoothData s \<Longrightarrow>
   optionSnowColors t = optionSnowColors s \<Longrightarrow> optionExtension t = optionExtension s \<Longrightarrow>
     scheme_suffix t = scheme_suffix s"
  by (simp add: scheme_suffix_def)

lemma addRadarOverlay_suffix: "scheme_suffix (addRadarOverlay n s) = scheme_suffix s"
  by (rule scheme_suffix_cong) (simp_all add: addRadarOverlay_def Let_def split: option.splits)

lemma addCloudOverlay_suffix: "scheme_suffix (addCloudOverlay n s) = scheme_suffix s"
  by (rule scheme_suffix_cong) (simp_all add: addCloudOverlay_def Let_def split: option.splits)

lemma addOverlays_suffix: "scheme_suffix (addOverlays i s) = scheme_suffix s"
  by (rule scheme_suffix_cong) (simp_all add: addOverlays_fields)

lemma radar_urls_ok_addRadarOverlay:
  assumes "store_ok s" "radar_urls_ok s"
  shows "radar_urls_ok (addRadarOverlay n s)"
proof (cases "arr_get (radarOverlayLayers s) n")
  case (Some h)
  with assms(2) show ?thesis
    by (simp add: addRadarOverlay_hit radar_urls_ok_def scheme_suffix_def)
next
  case None
  define l where "l = \<lparr> url = buildRadarTileUrl s (radarFrames s ! n), opacity = rainOpacity s \<rparr>"
  have c: "tileLayers (addRadarOverlay n s) = tileLayers s @ [l]"
    "radarOverlayLayers (addRadarOverlay n s)
       = arr_set (radarOverlayLayers s) n (length (tileLayers s))"
    using None by (simp_all add: addRadarOverlay_def Let_def l_def)
  have "suffix (scheme_suffix s) (url ((tileLayers s @ [l]) ! h))"
    if "h \<in> set (cached (arr_set (radarOverlayLayers s) n (length (tileLayers s))))" for h
  proof (cases "h = length (tileLayers s)")
    case True
    then show ?thesis by (simp add: l_def buildRadarTileUrl_suffix suffix_def)
  next
    case False
    with that cached_arr_set have h: "h \<in> set (cached (radarOverlayLayers s))" by fastforce
    with assms(1) have "h < length (tileLayers s)" by (simp add: store_ok_iff)
    with h assms(2) show ?thesis by (simp add: radar_urls_ok_iff nth_append)
  qed
  then show ?thesis by (simp add: radar_urls_ok_iff c addRadarOverlay_suffix)
qed

lemma radar_urls_ok_addCloudOverlay:
  assumes "store_ok s" "radar_urls_ok s"
  shows "radar_urls_ok (addCloudOverlay n s)"
proof -
  have "url (tileLayers (addCloudOverlay n s) ! h) = url (tileLayers s ! h)"
    if "h \<in> set (cached (radarOverlayLayers s))" for h
  proof -
    from that assms(1) have "h < length (tileLayers s)" by (simp add: store_ok_iff)
    then show ?thesis by (simp add: addCloudOverlay_old_layer)
  qed
  with assms(2) show ?thesis
    by (simp add: radar_urls_ok_iff addCloudOverlay_fields addCloudOverlay_suffix)
qed

lemma radar_urls_ok_addOverlays:
  "store_ok s \<Longrightarrow> radar_urls_ok s \<Longrightarrow> radar_urls_ok (addOverlays i s)"
  by (simp add: addOverlays_def radar_urls_ok_addRadarOverlay radar_urls_ok_addCloudOverlay
        store_ok_addRadarOverlay split: option.splits)

lemma radar_urls_ok_cong:
  "tileLayers t = tileLayers s \<Longrightarrow> radarOverlayLayers t = radarOverlayLayers s \<Longrightarrow>
   scheme_suffix t = scheme_suffix s \<Longrightarrow> radar_urls_ok t = radar_urls_ok s"
  by (simp add: radar_urls_ok_def)

lemma store_ok_cong:
  "tileLayers t = tileLayers s \<Longrightarrow> radarOverlayLayers t = radarOverlayLayers s \<Longrightarrow>
   cloudOverlayLayers t = cloudOverlayLayers s \<Longrightarrow> store_ok t = store_ok s"
  by (simp add: store_ok_def)

lemma showFrame_urls:
  assumes "store_ok s" "radar_urls_ok s"
  shows "radar_urls_ok (showFrame j s)"
proof -
  define s2 where "s2 = (removeOverlays (currentFrame s) s)\<lparr> currentFrame := j \<rparr>"
  have f: "tileLayers s2 = tileLayers s" "radarOverlayLayers s2 = radarOverlayLayers s"
    "cloudOverlayLayers s2 = cloudOverlayLayers s"
    by (simp_all add: s2_def removeOverlays_fields)
  have "scheme_suffix s2 = scheme_suffix s"
    unfolding s2_def by (subst removeOverlays_eq) (simp add: scheme_suffix_def)
  with f assms have "store_ok s2" "radar_urls_ok s2"
    using store_ok_cong [of s2 s] radar_urls_ok_cong [of s2 s] by simp_all
  then have "radar_urls_ok (addOverlays j s2)" by (rule radar_urls_ok_addOverlays)
  then show ?thesis by (simp add: showFrame_def Let_def s2_def)
qed

lemma showFrame_suffix: "scheme_suffix (showFrame j s) = scheme_suffix s"
  unfolding showFrame_def Let_def addOverlays_suffix
  by (subst removeOverlays_eq) (simp add: scheme_suffix_def)

lemma step_suffix: "keeps_scheme e \<Longrightarrow> scheme_suffix (step e s) = scheme_suffix s"
proof (cases e)
  case (Loaded res)
  show ?thesis
  proof (cases res)
    case (JsonDoc d)
    show ?thesis
      unfolding Loaded JsonDoc step_Loaded_doc addOverlays_suffix
      by (simp add: scheme_suffix_def)
  qed (use Loaded in \<open>simp_all add: fetchRainViewerData_def\<close>)
next
  case Play
  then show ?thesis by (simp add: playToggle_def scheme_suffix_def split: option.splits)
next
  case (RainOpacity v)
  then show ?thesis by (simp add: opacityRainInput_oninput_def Let_def scheme_suffix_def)
next
  case (CloudOpacity v)
  then show ?thesis by (simp add: opacityCloudInput_oninput_def Let_def scheme_suffix_def)
next
  case (RadarStyle sel)
  then show "keeps_scheme e \<Longrightarrow> ?thesis" by simp
qed (simp_all add: nextFrame_def prevFrame_def Let_def showFrame_suffix
       mapStyleSelect_onchange_def addOverlays_suffix)

lemma opacity_urls:
  "radar_urls_ok s \<Longrightarrow> radar_urls_ok (opacityRainInput_oninput v s)"
  "radar_urls_ok s \<Longrightarrow> radar_urls_ok (opacityCloudInput_oninput v s)"
  by (simp_all add: radar_urls_ok_def opacityRainInput_oninput_def opacityCloudInput_oninput_def
        Let_def setOpacityAll_def fold_opacity_url scheme_suffix_def)

lemma step_urls:
  assumes "keeps_scheme e" "store_ok s" "radar_urls_ok s"
  shows "radar_urls_ok (step e s)"
proof (cases e)
  case (Loaded res)
  show ?thesis
  proof (cases res)
    case (JsonDoc d)
    define s3 where "s3 = s\<lparr> apiHost := host d,
           radarFrames := or_empty (opt_chain (radar d) past)
                            @ or_empty (opt_chain (radar d) nowcast),
           satelliteFrames := or_empty (opt_chain (satellite d) infrared) \<rparr>"
    have "store_ok s3" "radar_urls_ok s3"
      using assms by (simp_all add: store_ok_def radar_urls_ok_def scheme_suffix_def s3_def)
    then have "radar_urls_ok (addOverlays (currentFrame s) s3)" by (rule radar_urls_ok_addOverlays)
    then show ?thesis unfolding Loaded JsonDoc step_Loaded_doc by (simp add: s3_def)
  qed (use assms Loaded in \<open>simp_all add: fetchRainViewerData_def\<close>)
next
  case Play
  with assms show ?thesis
    by (simp add: playToggle_def radar_urls_ok_def scheme_suffix_def split: option.splits)
next
  case (RadarStyle sel)
  with assms show ?thesis by simp
qed (use assms in \<open>simp_all add: nextFrame_def prevFrame_def Let_def showFrame_urls opacity_urls
       mapStyleSelect_onchange_def radar_urls_ok_addOverlays\<close>)

lemma run_urls:
  "\<forall>e \<in> set evs. keeps_scheme e \<Longrightarrow> store_ok s \<Longrightarrow> radar_urls_ok s \<Longrightarrow>
     radar_urls_ok (run evs s) \<and> scheme_suffix (run evs s) = scheme_suffix s"
  unfolding run_def
proof (induction evs arbitrary: s)
  case Nil
  then show ?case by simp
next
  case (Cons e evs)
  then have k: "keeps_scheme e" "\<forall>e \<in> set evs. keeps_scheme e" by simp_all
  have "store_ok (step e s)" "radar_urls_ok (step e s)"
    using Cons.prems k(1) by (simp_all add: store_ok_step step_urls del: step.simps)
  from Cons.IH [OF k(2) this] step_suffix [OF k(1), of s] show ?case by simp
qed


lemma removeOverlays_opts:
  "apiHost (removeOverlays i s) = apiHost s"
  "rainOpacity (removeOverlays i s) = rainOpacity s"
  "cloudOpacity (removeOverlays i s) = cloudOpacity s"
  "optionColorScheme (removeOverlays i s) = optionColorScheme s"
  "optionSmoothData (removeOverlays i s) = optionSmoothData s"
  "optionSnowColors (removeOverlays i s) = optionSnowColors s"
  "optionExtension (removeOverlays i s) = optionExtension s"
  by (simp_all add: removeOverlays_def Let_def split: option.splits)

lemma addOverlays_new_radar:
  "h \<in> set (cached (radarOverlayLayers (addOverlays i s))) \<Longrightarrow>
     h \<in> set (cached (radarOverlayLayers s)) \<or> length (tileLayers s) \<le> h"
proof -
  assume a: "h \<in> set (cached (radarOverlayLayers (addOverlays i s)))"
  have "h \<in> set (cached (radarOverlayLayers s)) \<or> h = length (tileLayers s)"
    if "h \<in> set (cached (radarOverlayLayers (addRadarOverlay n s)))" for n
    using that cached_arr_set [of "radarOverlayLayers s" n "length (tileLayers s)"]
    by (auto simp: addRadarOverlay_def Let_def split: option.splits)
  with a show ?thesis
    by (auto simp: addOverlays_def addCloudOverlay_fields split: option.splits if_splits)
qed

lemma addOverlays_new_cloud:
  "h \<in> set (cached (cloudOverlayLayers (addOverlays i s))) \<Longrightarrow>
     h \<in> set (cached (cloudOverlayLayers s)) \<or> length (tileLayers s) \<le> h"
proof -
  assume a: "h \<in> set (cached (cloudOverlayLayers (addOverlays i s)))"
  have "h \<in> set (cached (cloudOverlayLayers t)) \<or> h = length (tileLayers t)"
    if "h \<in> set (cached (cloudOverlayLayers (addCloudOverlay n t)))" for n t
    using that cached_arr_set [of "cloudOverlayLayers t" n "length (tileLayers t)"]
    by (auto simp: addCloudOverlay_def Let_def split: option.splits)
  from this [of _ "addRadarOverlay _ s"] a addRadarOverlay_length [of s] show ?thesis
    by (auto simp: addOverlays_def addRadarOverlay_fields split: option.splits if_splits)
qed

text \<open>
  C3. A change to a colour scheme of the table, in a state whose layer store is well
  formed and whose map shows only cached layers of the current frame (both hold in every
  reachable state), stores the scheme. Every layer of the satellite cache stays cached
  under the same address and is the same object as before. No layer of the old radar
  cache is cached or on the map afterwards. If the current frame has no radar or no
  satellite descriptor, the radar cache is empty and the map shows no overlay; otherwise
  a new radar layer is built for the current frame with the new scheme in its URL, and
  the map shows it together with the satellite layer of the frame. From then on, as long
  as the scheme is not changed again, every layer in the radar cache has a URL that ends
  in \<open>/256/{z}/{x}/{y}/\<close>, the new scheme, and the unchanged flags and format.
\<close>

theorem scheme_change_rebuilds_radar_only:
  fixes s :: state and sel :: string and k :: nat
  defines "s' \<equiv> radarStyleSelect_onchange sel s"
  assumes sel: "map_of radarColorSchemes sel = Some k"
    and ok: "store_ok s" and ov: "overlays_ok s"
  shows "optionColorScheme s' = k
     \<and> (\<forall>n h. arr_get (cloudOverlayLayers s) n = Some h \<longrightarrow>
           arr_get (cloudOverlayLayers s') n = Some h \<and> tileLayers s' ! h = tileLayers s ! h)
     \<and> (\<forall>h \<in> set (cached (radarOverlayLayers s)).
           h \<notin> set (cached (radarOverlayLayers s')) \<and> h \<notin> map_layers s')
     \<and> (frame_at (radarFrames s) (currentFrame s) = None
          \<or> frame_at (satelliteFrames s) (currentFrame s) = None \<longrightarrow>
            radarOverlayLayers s' = [] \<and> map_layers s' = {})
     \<and> (\<forall>rf. frame_at (radarFrames s) (currentFrame s) = Some rf
          \<and> frame_at (satelliteFrames s) (currentFrame s) \<noteq> None \<longrightarrow>
            (\<exists>hc. layer_at (radarOverlayLayers s') (currentFrame s) = Some (length (tileLayers s))
               \<and> layer_at (cloudOverlayLayers s') (currentFrame s) = Some hc
               \<and> map_layers s' = {length (tileLayers s), hc}
               \<and> tileLayers s' ! length (tileLayers s) =
                   \<lparr> url = show_host (apiHost s) @ path rf @ ''/256/{z}/{x}/{y}/'' @ show_nat k
                             @ ''/'' @ show_nat (optionSmoothData s) @ ''_''
                             @ show_nat (optionSnowColors s) @ ''.'' @ optionExtension s,
                      opacity = rainOpacity s \<rparr>))
     \<and> (\<forall>evs. (\<forall>e \<in> set evs. keeps_scheme e) \<longrightarrow>
          (\<forall>h \<in> set (cached (radarOverlayLayers (run evs s'))).
             suffix (''/256/{z}/{x}/{y}/'' @ show_nat k @ ''/'' @ show_nat (optionSmoothData s)
                       @ ''_'' @ show_nat (optionSnowColors s) @ ''.'' @ optionExtension s)
               (url (tileLayers (run evs s') ! h))))"
proof -
  define cur where "cur = currentFrame s"
  define s3 where
    "s3 = (removeOverlays cur (s\<lparr> optionColorScheme := k \<rparr>))\<lparr> radarOverlayLayers := [] \<rparr>"
  have e: "s' = addOverlays cur s3"
    using sel
    by (simp add: s'_def radarStyleSelect_onchange_def Let_def s3_def cur_def
          removeOverlays_fields)
  have ov1: "overlays_ok (s\<lparr> optionColorScheme := k \<rparr>)" using ov by (simp add: overlays_ok_def)
  have s3: "tileLayers s3 = tileLayers s" "cloudOverlayLayers s3 = cloudOverlayLayers s"
    "radarOverlayLayers s3 = []" "currentFrame s3 = cur" "optionColorScheme s3 = k"
    "radarFrames s3 = radarFrames s" "satelliteFrames s3 = satelliteFrames s"
    "map_layers s3 = {}"
    using removeOverlays_current [OF ov1]
    by (simp_all add: s3_def removeOverlays_fields removeOverlays_opts cur_def)
  have opts: "apiHost s3 = apiHost s" "optionSmoothData s3 = optionSmoothData s"
    "optionSnowColors s3 = optionSnowColors s" "optionExtension s3 = optionExtension s"
    "rainOpacity s3 = rainOpacity s"
    by (simp_all add: s3_def removeOverlays_opts)
  have ok3: "store_ok s3" using ok by (simp add: store_ok_def s3)
  have ok': "store_ok s'" unfolding e using ok3 by (rule store_ok_addOverlays)
  have ov': "overlays_ok s'"
    unfolding s'_def using ov by (rule overlays_ok_scheme)
  have cur': "currentFrame s' = cur" by (simp add: e addOverlays_fields s3)
  have p1: "optionColorScheme s' = k" by (simp add: e addOverlays_fields s3)
  have p2: "arr_get (cloudOverlayLayers s') n = Some h \<and> tileLayers s' ! h = tileLayers s ! h"
    if a: "arr_get (cloudOverlayLayers s) n = Some h" for n h
  proof -
    have "h < length (tileLayers s)" using arr_get_cached [OF a] ok by (simp add: store_ok_iff)
    then show ?thesis
      using a addOverlays_keeps_cloud [of s3 n h cur] addOverlays_old_layer [of h s3 cur]
      by (simp add: e s3)
  qed
  have newr: "length (tileLayers s) \<le> h" if "h \<in> set (cached (radarOverlayLayers s'))" for h
    using addOverlays_new_radar [of h cur s3] that by (simp add: e s3)
  have p3: "h \<notin> set (cached (radarOverlayLayers s')) \<and> h \<notin> map_layers s'"
    if a: "h \<in> set (cached (radarOverlayLayers s))" for h
  proof -
    have b: "h < length (tileLayers s)" "h \<notin> set (cached (cloudOverlayLayers s))"
      using a ok by (auto simp: store_ok_iff)
    have r: "h \<notin> set (cached (radarOverlayLayers s'))" using newr [of h] b by auto
    have c: "h \<notin> set (cached (cloudOverlayLayers s'))"
      using addOverlays_new_cloud [of h cur s3] b by (auto simp: e s3)
    have "h \<notin> map_layers s'"
    proof
      assume "h \<in> map_layers s'"
      with ov' have "layer_at (radarOverlayLayers s') cur = Some h
          \<or> layer_at (cloudOverlayLayers s') cur = Some h"
        by (auto simp: overlays_ok_def cur' elim: option.set_cases)
      then have "h \<in> set (cached (radarOverlayLayers s')) \<or> h \<in> set (cached (cloudOverlayLayers s'))"
        by (auto simp: layer_at_def split: option.splits dest: arr_get_cached)
      with r c show False by blast
    qed
    with r show ?thesis by blast
  qed
  have p4: "radarOverlayLayers s' = [] \<and> map_layers s' = {}"
    if "frame_at (radarFrames s) cur = None \<or> frame_at (satelliteFrames s) cur = None"
  proof -
    have "addOverlays cur s3 = s3" using that by (intro addOverlays_missing) (simp add: s3)
    then show ?thesis by (simp add: e s3)
  qed
  have p5: "\<exists>hc. layer_at (radarOverlayLayers s') cur = Some (length (tileLayers s))
               \<and> layer_at (cloudOverlayLayers s') cur = Some hc
               \<and> map_layers s' = {length (tileLayers s), hc}
               \<and> tileLayers s' ! length (tileLayers s) =
                   \<lparr> url = show_host (apiHost s) @ path rf @ ''/256/{z}/{x}/{y}/'' @ show_nat k
                             @ ''/'' @ show_nat (optionSmoothData s) @ ''_''
                             @ show_nat (optionSnowColors s) @ ''.'' @ optionExtension s,
                      opacity = rainOpacity s \<rparr>"
    if a: "frame_at (radarFrames s) cur = Some rf" "frame_at (satelliteFrames s) cur \<noteq> None" for rf
  proof -
    from a obtain n where n: "index_of cur = Some n" "n < length (radarFrames s3)"
      "n < length (satelliteFrames s3)" "rf = radarFrames s ! n"
      by (auto simp: frame_at_def s3 split: option.splits if_splits)
    from a obtain sf where "frame_at (radarFrames s3) cur = Some rf"
      "frame_at (satelliteFrames s3) cur = Some sf" by (auto simp: s3)
    from addOverlays_present [OF this] obtain hr hc where
      p: "layer_at (radarOverlayLayers s') cur = Some hr"
      "layer_at (cloudOverlayLayers s') cur = Some hc" "hr \<in> map_layers s'" "hc \<in> map_layers s'"
      by (auto simp: e)
    have "arr_get (radarOverlayLayers s3) n = None" by (simp add: s3 arr_get_def)
    from addOverlays_created(1) [OF n(1,2,3) this]
    have c: "arr_get (radarOverlayLayers s') n = Some (length (tileLayers s))"
      "tileLayers s' ! length (tileLayers s) =
         \<lparr> url = buildRadarTileUrl s3 rf, opacity = rainOpacity s \<rparr>"
      by (simp_all add: e s3 n(4) opts)
    have hr: "hr = length (tileLayers s)" using p(1) c(1) n(1) by (simp add: layer_at_def)
    have "map_layers s' \<subseteq> {hr, hc}" using ov' p by (auto simp: overlays_ok_def cur')
    with p have m: "map_layers s' = {hr, hc}" by blast
    have u: "buildRadarTileUrl s3 rf =
        show_host (apiHost s) @ path rf @ ''/256/{z}/{x}/{y}/'' @ show_nat k
          @ ''/'' @ show_nat (optionSmoothData s) @ ''_''
          @ show_nat (optionSnowColors s) @ ''.'' @ optionExtension s"
      by (simp add: buildRadarTileUrl_def show_nat_256 s3 opts)
    show ?thesis using p(1,2) m c(2) by (intro exI [of _ hc]) (simp add: hr u)
  qed
  have p6: "suffix (''/256/{z}/{x}/{y}/'' @ show_nat k @ ''/'' @ show_nat (optionSmoothData s)
                       @ ''_'' @ show_nat (optionSnowColors s) @ ''.'' @ optionExtension s)
               (url (tileLayers (run evs s') ! h))"
    if a: "\<forall>e \<in> set evs. keeps_scheme e" "h \<in> set (cached (radarOverlayLayers (run evs s')))"
    for evs h
  proof -
    have "radar_urls_ok s3" by (simp add: radar_urls_ok_def s3)
    with ok3 have "radar_urls_ok s'" unfolding e by (rule radar_urls_ok_addOverlays)
    from run_urls [OF a(1) ok' this] a(2)
    have "suffix (scheme_suffix s') (url (tileLayers (run evs s') ! h))"
      by (auto simp: radar_urls_ok_iff)
    moreover have "scheme_suffix s' = ''/256/{z}/{x}/{y}/'' @ show_nat k @ ''/''
        @ show_nat (optionSmoothData s) @ ''_'' @ show_nat (optionSnowColors s)
        @ ''.'' @ optionExtension s"
      by (simp add: e addOverlays_suffix) (simp add: scheme_suffix_def s3 opts)
    ultimately show ?thesis by simp
  qed
  show ?thesis
    unfolding cur_def [symmetric]
    by (intro conjI allI ballI impI) (use p1 p2 p3 p4 p5 p6 in \<open>simp_all\<close>)
qed




lemma titan: "map_of radarColorSchemes ''titan'' = Some 3"
  by (simp add: radarColorSchemes_def)

lemma restyled1_eq:
  "restyled1 = \<lparr> map_layers = {3, 4},
      tileLayers = [\<lparr> url = ''https://t/r0/256/{z}/{x}/{y}/2/1_1.webp'', opacity = 1 \<rparr>,
                    \<lparr> url = ''https://t/s0/256/{z}/{x}/{y}/0/0_0.webp'', opacity = 1 \<rparr>,
                    \<lparr> url = ''https://t/r1/256/{z}/{x}/{y}/2/1_1.webp'', opacity = 1 \<rparr>,
                    \<lparr> url = ''https://t/s1/256/{z}/{x}/{y}/0/0_0.webp'', opacity = 1 \<rparr>,
                    \<lparr> url = ''https://t/r1/256/{z}/{x}/{y}/3/1_1.webp'', opacity = 1 \<rparr>],
      radarOverlayLayers = [None, Some 4], cloudOverlayLayers = [Some 1, Some 3],
      currentFrame = Num 1, playInterval = None, intervals = {}, timerSeq = 0,
      radarFrames = [\<lparr> path = ''/r0'', time = 10 \<rparr>, \<lparr> path = ''/r1'', time = 20 \<rparr>],
      satelliteFrames = [\<lparr> path = ''/s0'', time = 10 \<rparr>, \<lparr> path = ''/s1'', time = 20 \<rparr>],
      apiHost = Some ''https://t'', rainOpacity = 1, cloudOpacity = 1,
      optionColorScheme = 3, optionSmoothData = 1, optionSnowColors = 1,
      optionExtension = ''webp'' \<rparr>"
  unfolding restyled1_def shown1_eq
  by (auto simp: radarStyleSelect_onchange_def titan eval_defs)

lemma prev_restyled1:
  "radarOverlayLayers (run [Prev] restyled1) = [Some 5, Some 4]"
  unfolding restyled1_eq by (simp add: run_def eval_defs)

text \<open>
  C3 for the scheme \<open>titan\<close> (3) in the state that shows frame 1 of two, followed by one
  step back; and in the initial state, where no frame exists.
\<close>

theorem scheme_change_rebuilds_radar_only_witness:
  "map_of radarColorSchemes ''titan'' = Some 3 \<and> store_ok shown1 \<and> overlays_ok shown1
   \<and> optionColorScheme restyled1 = 3
   \<and> arr_get (cloudOverlayLayers shown1) 0 = Some 1
   \<and> arr_get (cloudOverlayLayers restyled1) 0 = Some 1
   \<and> tileLayers restyled1 ! 1 = tileLayers shown1 ! 1
   \<and> 2 \<in> set (cached (radarOverlayLayers shown1))
   \<and> 2 \<notin> set (cached (radarOverlayLayers restyled1)) \<and> 2 \<notin> map_layers restyled1
   \<and> frame_at (radarFrames shown1) (currentFrame shown1) = Some \<lparr> path = ''/r1'', time = 20 \<rparr>
   \<and> frame_at (satelliteFrames shown1) (currentFrame shown1) \<noteq> None
   \<and> layer_at (radarOverlayLayers restyled1) (Num 1) = Some 4
   \<and> layer_at (cloudOverlayLayers restyled1) (Num 1) = Some 3
   \<and> map_layers restyled1 = {4, 3}
   \<and> tileLayers restyled1 ! 4 =
        \<lparr> url = ''https://t/r1/256/{z}/{x}/{y}/3/1_1.webp'', opacity = 1 \<rparr>
   \<and> keeps_scheme Prev
   \<and> 5 \<in> set (cached (radarOverlayLayers (run [Prev] restyled1)))
   \<and> suffix ''/256/{z}/{x}/{y}/3/1_1.webp'' (url (tileLayers (run [Prev] restyled1) ! 5))
   \<and> store_ok init \<and> overlays_ok init
   \<and> frame_at (radarFrames init) (currentFrame init) = None
   \<and> radarOverlayLayers (radarStyleSelect_onchange ''titan'' init) = []
   \<and> map_layers (radarStyleSelect_onchange ''titan'' init) = {}"
proof -
  have ok: "store_ok shown1" "overlays_ok shown1"
    by (simp_all add: shown1_eq store_ok_def overlays_ok_def layer_at_def arr_get_def)
  have a: "arr_get (cloudOverlayLayers shown1) 0 = Some 1"
    "2 \<in> set (cached (radarOverlayLayers shown1))"
    "frame_at (radarFrames shown1) (currentFrame shown1) = Some \<lparr> path = ''/r1'', time = 20 \<rparr>"
    "frame_at (satelliteFrames shown1) (currentFrame shown1) \<noteq> None"
    "currentFrame shown1 = Num 1" "length (tileLayers shown1) = 4"
    "apiHost shown1 = Some ''https://t''" "optionSmoothData shown1 = 1"
    "optionSnowColors shown1 = 1" "optionExtension shown1 = ''webp''" "rainOpacity shown1 = 1"
    by (simp_all add: shown1_eq arr_get_def frame_at_def)
  have b: "5 \<in> set (cached (radarOverlayLayers (run [Prev] restyled1)))"
    "\<forall>e \<in> set [Prev]. keeps_scheme e"
    by (simp_all add: prev_restyled1)
  have n: "show_nat 3 = ''3''" "show_nat 1 = ''1''" "show_nat (Suc 0) = ''1''"
    by (simp_all add: show_nat.simps)
  have i: "frame_at (radarFrames init) (currentFrame init) = None"
    by (simp add: init_def frame_at_def)
  note t = scheme_change_rebuilds_radar_only [OF titan ok, folded restyled1_def]
  note u = scheme_change_rebuilds_radar_only [OF titan store_ok_init overlays_ok_init]
  have c1: "optionColorScheme restyled1 = 3" using t by blast
  have c2: "arr_get (cloudOverlayLayers restyled1) 0 = Some 1
      \<and> tileLayers restyled1 ! 1 = tileLayers shown1 ! 1"
    using t a(1) by blast
  have c3: "2 \<notin> set (cached (radarOverlayLayers restyled1)) \<and> 2 \<notin> map_layers restyled1"
    using t a(2) by blast
  from t a(3,4) obtain hc where
    hc: "layer_at (radarOverlayLayers restyled1) (currentFrame shown1)
           = Some (length (tileLayers shown1))"
      "layer_at (cloudOverlayLayers restyled1) (currentFrame shown1) = Some hc"
      "map_layers restyled1 = {length (tileLayers shown1), hc}"
      "tileLayers restyled1 ! length (tileLayers shown1) =
          \<lparr> url = show_host (apiHost shown1) @ path \<lparr> path = ''/r1'', time = 20 \<rparr>
                    @ ''/256/{z}/{x}/{y}/'' @ show_nat 3 @ ''/''
                    @ show_nat (optionSmoothData shown1) @ ''_''
                    @ show_nat (optionSnowColors shown1) @ ''.'' @ optionExtension shown1,
             opacity = rainOpacity shown1 \<rparr>"
    by blast
  have hc3: "hc = 3" using hc(2) by (simp add: a(5) restyled1_eq layer_at_def arr_get_def)
  have c4: "layer_at (radarOverlayLayers restyled1) (Num 1) = Some 4"
    "layer_at (cloudOverlayLayers restyled1) (Num 1) = Some 3"
    "map_layers restyled1 = {4, 3}"
    "tileLayers restyled1 ! 4 =
          \<lparr> url = ''https://t/r1/256/{z}/{x}/{y}/3/1_1.webp'', opacity = 1 \<rparr>"
    using hc by (simp_all add: a(5-11) n hc3)
  note t6 = t [THEN conjunct2, THEN conjunct2, THEN conjunct2, THEN conjunct2, THEN conjunct2,
      THEN spec, of "[Prev]", THEN mp, OF b(2), THEN bspec, OF b(1)]
  have c5: "suffix ''/256/{z}/{x}/{y}/3/1_1.webp'' (url (tileLayers (run [Prev] restyled1) ! 5))"
    using t6 by (simp add: a(5-11) n)
  have c6: "radarOverlayLayers (radarStyleSelect_onchange ''titan'' init) = []
      \<and> map_layers (radarStyleSelect_onchange ''titan'' init) = {}"
    using u i by blast
  show ?thesis
    using titan ok a(1-4) b(1) c1 c2 c3 c4 c5 c6 i store_ok_init overlays_ok_init by simp
qed


end
